theory Spec2Isabelle
  imports
    Complex_Main
    "HOL-Library.Multiset"
    "HOL-Library.Sublist"
    "HOL-Library.List_Lexorder"
    "HOL-Library.Char_ord"
begin

section \<open>JavaScript values\<close>

text \<open>
  The request body of the bulk key-metadata route is typed \<^verbatim>\<open>any\<close>, and the value that
  \<^verbatim>\<open>JSON.parse\<close> returns for an attribute payload can be any JSON value. Both are modelled by
  one datatype of JavaScript values. A number is a real (JSON has neither NaN nor the
  infinities); an object is the list of its own properties in enumeration order.
\<close>

datatype jsval =
    JUndefined
  | JNull
  | JBool bool
  | JNum real
  | JStr string
  | JArr "jsval list"
  | JObj "(string \<times> jsval) list"

datatype js_error = TypeError | SyntaxError

text \<open>Truthiness, as \<^verbatim>\<open>!v\<close> and \<^verbatim>\<open>if (v)\<close> test it: undefined, null, false, 0 and the empty string are falsy.\<close>

fun truthy :: "jsval \<Rightarrow> bool" where
  "truthy JUndefined = False"
| "truthy JNull = False"
| "truthy (JBool b) = b"
| "truthy (JNum x) = (x \<noteq> 0)"
| "truthy (JStr s) = (s \<noteq> [])"
| "truthy (JArr xs) = True"
| "truthy (JObj kvs) = True"

fun isArray :: "jsval \<Rightarrow> bool" where
  "isArray (JArr xs) = True"
| "isArray v = False"

text \<open>The elements of an array value (\<^verbatim>\<open>for (const k of v)\<close>, \<^verbatim>\<open>v.map\<close>, \<^verbatim>\<open>v.length\<close>).\<close>

fun elems :: "jsval \<Rightarrow> jsval list" where
  "elems (JArr xs) = xs"
| "elems v = []"

text \<open>
  \<^verbatim>\<open>body.keyNames\<close> and \<^verbatim>\<open>body.returnCommandOnly\<close>: reading a property of undefined or null
  throws a TypeError; an object yields its own property or undefined; the other kinds of value
  have no property of these two names.
\<close>

fun body_field :: "jsval \<Rightarrow> string \<Rightarrow> js_error + jsval" where
  "body_field JUndefined p = Inl TypeError"
| "body_field JNull p = Inl TypeError"
| "body_field (JObj kvs) p = Inr (case map_of kvs p of None \<Rightarrow> JUndefined | Some v \<Rightarrow> v)"
| "body_field v p = Inr JUndefined"

text \<open>\<^verbatim>\<open>Array.prototype.join\<close> with the default separator.\<close>

fun join_comma :: "string list \<Rightarrow> string" where
  "join_comma [] = []"
| "join_comma [x] = x"
| "join_comma (x # y # ys) = x @ [CHR '',''] @ join_comma (y # ys)"

text \<open>The strings of the elements of an array, or the error of the first element that throws.\<close>

fun all_strings :: "(js_error + string) list \<Rightarrow> js_error + string list" where
  "all_strings [] = Inr []"
| "all_strings (Inl e # rest) = Inl e"
| "all_strings (Inr s # rest) =
     (case all_strings rest of Inl e \<Rightarrow> Inl e | Inr ss \<Rightarrow> Inr (s # ss))"

text \<open>
  The conversion of a value to a string, as a template literal \<^verbatim>\<open>`${v}`\<close> and
  \<^verbatim>\<open>Array.prototype.join\<close> perform it; the decimal rendering of a number is a parameter. An
  array joins the strings of its elements, with the empty string for null and undefined
  elements. An object is converted by its \<^verbatim>\<open>toString\<close> method: the inherited one gives
  \<^verbatim>\<open>[object Object]\<close>, and an own property \<^verbatim>\<open>toString\<close>, which is a JSON value and cannot be called,
  leaves only \<^verbatim>\<open>valueOf\<close>, which yields no primitive, so the conversion throws a TypeError.
\<close>

fun js_ToString :: "(real \<Rightarrow> string) \<Rightarrow> jsval \<Rightarrow> js_error + string" where
  "js_ToString numberToString JUndefined = Inr ''undefined''"
| "js_ToString numberToString JNull = Inr ''null''"
| "js_ToString numberToString (JBool b) = Inr (if b then ''true'' else ''false'')"
| "js_ToString numberToString (JNum x) = Inr (numberToString x)"
| "js_ToString numberToString (JStr s) = Inr s"
| "js_ToString numberToString (JArr xs) =
     (case all_strings
             (map (\<lambda>v. if v = JNull \<or> v = JUndefined then Inr []
                       else js_ToString numberToString v) xs) of
        Inl e \<Rightarrow> Inl e
      | Inr ss \<Rightarrow> Inr (join_comma ss))"
| "js_ToString numberToString (JObj kvs) =
     (if map_of kvs ''toString'' \<noteq> None then Inl TypeError else Inr ''[object Object]'')"

section \<open>Bulk key metadata: \<^verbatim>\<open>vinfo_multi/command.ts\<close>\<close>

record VinfoMultiRequest =
  keyNames :: "jsval list"
  returnCommandOnly :: bool

text \<open>
  The two error messages of \<^verbatim>\<open>validateVinfoMultiRequest\<close>: \<^verbatim>\<open>'Key names array is required and
  must not be empty'\<close> and \<^verbatim>\<open>`Invalid key name: ${keyName}`\<close>, the latter with the text that the
  template puts for the offending entry.
\<close>

datatype validation_error = KeyNamesRequired | InvalidKeyName string

text \<open>\<^verbatim>\<open>{ isValid: false, error }\<close> or \<^verbatim>\<open>{ isValid: true, value }\<close>.\<close>

datatype validation = Invalid validation_error | Valid VinfoMultiRequest

text \<open>The \<^verbatim>\<open>for\<close> loop over the key names: it returns at the first entry that fails validation.\<close>

fun first_invalid :: "(jsval \<Rightarrow> bool) \<Rightarrow> jsval list \<Rightarrow> jsval option" where
  "first_invalid validateKeyName [] = None"
| "first_invalid validateKeyName (keyName # rest) =
     (if \<not> validateKeyName keyName then Some keyName
      else first_invalid validateKeyName rest)"

text \<open>
  \<^verbatim>\<open>validateKeyName\<close> is imported from \<^verbatim>\<open>@/app/redis-server/utils\<close>; it is a parameter here, as is
  the rendering of numbers. The message for an entry that fails validation is built by a
  template literal, which throws when the entry has no string form.
\<close>

definition validateVinfoMultiRequest ::
  "(real \<Rightarrow> string) \<Rightarrow> (jsval \<Rightarrow> bool) \<Rightarrow> jsval \<Rightarrow> js_error + validation" where
  "validateVinfoMultiRequest numberToString validateKeyName body =
     (case body_field body ''keyNames'' of
        Inl e \<Rightarrow> Inl e
      | Inr kn \<Rightarrow>
          if \<not> truthy kn \<or> \<not> isArray kn \<or> length (elems kn) = 0
          then Inr (Invalid KeyNamesRequired)
          else (case first_invalid validateKeyName (elems kn) of
                  Some keyName \<Rightarrow>
                    (case js_ToString numberToString keyName of
                       Inl e \<Rightarrow> Inl e
                     | Inr keyText \<Rightarrow> Inr (Invalid (InvalidKeyName keyText)))
                | None \<Rightarrow>
                    (case body_field body ''returnCommandOnly'' of
                       Inl e \<Rightarrow> Inl e
                     | Inr rco \<Rightarrow>
                         Inr (Valid \<lparr>keyNames = elems kn,
                                     returnCommandOnly = (rco = JBool True)\<rparr>))))"

definition buildVinfoMultiCommand :: "VinfoMultiRequest \<Rightarrow> jsval list list" where
  "buildVinfoMultiCommand request = map (\<lambda>keyName. [JStr ''VINFO'', keyName]) (keyNames request)"

section \<open>State of the \<^verbatim>\<open>VectorResults\<close> component\<close>

datatype SortColumn = Col_element | Col_score | Col_none

datatype SortDirection = Asc | Desc

datatype ColumnType = System | Attribute

record ColumnConfig =
  name :: string
  visible :: bool
  ctype :: ColumnType

text \<open>A result row \<^verbatim>\<open>[element, score]\<close>. Scores are finite numbers, modelled as reals.\<close>

type_synonym VectorTuple = "string \<times> real"

text \<open>
  An entry of \<^verbatim>\<open>attributeCache\<close>: the fetched payload, \<^verbatim>\<open>null\<close> when the store has no
  attributes for the element, or \<^verbatim>\<open>undefined\<close> when the response array is shorter than the
  element list (\<^verbatim>\<open>attributes[i]\<close> read out of range).
\<close>

datatype payload = Undefined | Null | Payload string

text \<open>
  The prototype of a plain object that the component uses as a dictionary. It is
  \<^verbatim>\<open>Object.prototype\<close> when the object is created by \<^verbatim>\<open>{}\<close> or by a spread. The assignment
  \<^verbatim>\<open>obj["__proto__"] = v\<close> on an object that has no own property of that name runs the setter
  that \<^verbatim>\<open>Object.prototype\<close> provides: it replaces the prototype by \<open>v\<close> when \<open>v\<close> is an object or
  null, does nothing for any other \<open>v\<close>, and creates no own property in either case.
\<close>

datatype 'a proto = ObjectPrototype | NullPrototype | ValuePrototype 'a

text \<open>
  The \<^verbatim>\<open>useState\<close> cells of the component that the result logic reads or writes. An object used
  as a dictionary is a map of its own properties, where a key absent from the object is
  \<open>None\<close>, together with its prototype.
\<close>

record state =
  filterText :: string
  sortColumn :: SortColumn
  sortDirection :: SortDirection
  editingAttributes :: "string option"
  attributeCache :: "string \<rightharpoonup> payload"
  isLoadingAttributes :: bool
  filteredFieldValues :: "string \<rightharpoonup> (string \<rightharpoonup> string)"
  parsedAttributeCache :: "string \<rightharpoonup> jsval"
  availableColumns :: "ColumnConfig list"
  selectMode :: bool
  selectedElements :: "string set"
  attributeCachePrototype :: "payload proto"
  parsedAttributeCachePrototype :: "jsval proto"
  filteredFieldValuesPrototype :: "(string \<rightharpoonup> string) proto"

text \<open>The initial values given to \<^verbatim>\<open>useState\<close>.\<close>

definition initial_state :: state where
  "initial_state =
     \<lparr>filterText = [], sortColumn = Col_none, sortDirection = Asc, editingAttributes = None,
      attributeCache = Map.empty, isLoadingAttributes = False,
      filteredFieldValues = Map.empty, parsedAttributeCache = Map.empty,
      availableColumns =
        [\<lparr>name = ''element'', visible = True, ctype = System\<rparr>,
         \<lparr>name = ''score'', visible = True, ctype = System\<rparr>],
      selectMode = False, selectedElements = {},
      attributeCachePrototype = ObjectPrototype,
      parsedAttributeCachePrototype = ObjectPrototype,
      filteredFieldValuesPrototype = ObjectPrototype\<rparr>"

subsection \<open>\<^verbatim>\<open>handleSort\<close>\<close>

definition handleSort :: "SortColumn \<Rightarrow> state \<Rightarrow> state" where
  "handleSort column s =
     (if sortColumn s = column then
        (if sortDirection s = Asc then s\<lparr>sortDirection := Desc\<rparr>
         else if sortDirection s = Desc then s\<lparr>sortColumn := Col_none\<rparr>
         else s)
      else s\<lparr>sortColumn := column, sortDirection := Asc\<rparr>)"

section \<open>Inputs of the component\<close>

text \<open>
  The props and the values of the settings hook that the result logic reads.
  \<^verbatim>\<open>searchFilter\<close> is optional: \<open>None\<close> is \<^verbatim>\<open>undefined\<close>. \<^verbatim>\<open>getColumnVisibility(name,
  defaultVisible)\<close> is the lookup of the persisted column visibility; the component reads it
  through \<^verbatim>\<open>getColumnVisibilityRef.current\<close>, which the first effect of every commit sets to
  the function of the current render.
\<close>

record inputs =
  keyName :: string
  results :: "VectorTuple list"
  searchFilter :: "string option"
  showAttributes :: bool
  showOnlyFilteredAttributes :: bool
  getColumnVisibility :: "string \<Rightarrow> bool \<Rightarrow> bool"


subsection \<open>The effects that run when \<^verbatim>\<open>keyName\<close> changes\<close>

text \<open>The effect of lines 245 to 248: selections are cleared.\<close>

definition selection_clear_effect :: "state \<Rightarrow> state" where
  "selection_clear_effect s = s\<lparr>selectMode := False, selectedElements := {}\<rparr>"

text \<open>
  The effect of lines 289 to 314: the per-dataset state goes back to its defaults. Each of the
  three dictionaries is set to a new \<^verbatim>\<open>{}\<close>.
\<close>

definition keyName_reset_effect :: "inputs \<Rightarrow> state \<Rightarrow> state" where
  "keyName_reset_effect p s =
     s\<lparr>availableColumns :=
         [\<lparr>name = ''element'', visible = getColumnVisibility p ''element'' True, ctype = System\<rparr>,
          \<lparr>name = ''score'', visible = getColumnVisibility p ''score'' True, ctype = System\<rparr>],
       attributeCache := Map.empty,
       attributeCachePrototype := ObjectPrototype,
       parsedAttributeCache := Map.empty,
       parsedAttributeCachePrototype := ObjectPrototype,
       filteredFieldValues := Map.empty,
       filteredFieldValuesPrototype := ObjectPrototype,
       editingAttributes := None,
       sortColumn := Col_none,
       sortDirection := Asc,
       filterText := [],
       isLoadingAttributes := False\<rparr>"

section \<open>Reading parsed attribute values\<close>

text \<open>
  A \<^verbatim>\<open>Set<string>\<close> keeps its members in insertion order and ignores a member it already has;
  \<^verbatim>\<open>Array.from(set)\<close> lists them in that order.
\<close>

definition set_add :: "string list \<Rightarrow> string \<Rightarrow> string list" where
  "set_add members x = (if x \<in> set members then members else members @ [x])"

definition new_Set :: "string list \<Rightarrow> string list" where
  "new_Set xs = fold (\<lambda>x members. set_add members x) xs []"

text \<open>The decimal name of an array index, as property names spell it.\<close>

fun show_nat :: "nat \<Rightarrow> string" where
  "show_nat n =
     (if n < 10 then [''0123456789'' ! n]
      else show_nat (n div 10) @ [''0123456789'' ! (n mod 10)])"

declare show_nat.simps [simp del]

text \<open>
  \<^verbatim>\<open>Object.keys(parsed)\<close>: the own enumerable property names. An object lists its keys, an
  array and a string list their indices, a number and a boolean have none, and null (which
  \<^verbatim>\<open>JSON.parse\<close> returns for the payload \<^verbatim>\<open>null\<close>) throws a TypeError, here \<open>None\<close>.
\<close>

fun object_keys :: "jsval \<Rightarrow> string list option" where
  "object_keys JUndefined = None"
| "object_keys JNull = None"
| "object_keys (JBool b) = Some []"
| "object_keys (JNum x) = Some []"
| "object_keys (JStr s) = Some (map show_nat [0..<length s])"
| "object_keys (JArr xs) = Some (map show_nat [0..<length xs])"
| "object_keys (JObj kvs) = Some (map fst kvs)"

text \<open>
  What a property read can yield in the component: a JSON value, or one of the runtime's own
  objects and functions (the members of \<^verbatim>\<open>Object.prototype\<close>, \<^verbatim>\<open>Array.prototype\<close> and so on, which
  every object inherits), known here by a name only.
\<close>

datatype read_value = Json jsval | Native string

fun truthy_value :: "read_value \<Rightarrow> bool" where
  "truthy_value (Json v) = truthy v"
| "truthy_value (Native n) = True"

text \<open>
  What the component takes from the JavaScript runtime when it reads and prints values.
  \<open>numberToString\<close> is the decimal rendering of a number and \<open>nativeToString\<close> the string that
  \<^verbatim>\<open>toString()\<close> gives for a built-in object or function. \<open>builtin_member v k\<close> is the outcome
  of the read \<^verbatim>\<open>v[k]\<close> when \<open>k\<close> is not an own property of the JSON value \<open>v\<close>: the member that \<open>v\<close>
  inherits from its prototype chain (\<^verbatim>\<open>constructor\<close>, \<^verbatim>\<open>toString\<close>, \<^verbatim>\<open>__proto__\<close>, ...), and for a
  built-in \<open>v\<close> any property of it. It is \<open>Inr (Json JUndefined)\<close> when there is no such
  member, and an error when the member is an accessor that throws, as \<^verbatim>\<open>caller\<close> and
  \<^verbatim>\<open>arguments\<close> of a built-in function do.
\<close>

record runtime =
  numberToString :: "real \<Rightarrow> string"
  nativeToString :: "string \<Rightarrow> string"
  builtin_member :: "read_value \<Rightarrow> string \<Rightarrow> js_error + read_value"

text \<open>
  The own properties of a JSON value: the keys of an object, the indices and the length of an
  array and of a string. A number and a boolean have none.
\<close>

fun own_field :: "jsval \<Rightarrow> string \<Rightarrow> jsval option" where
  "own_field (JObj kvs) field = map_of kvs field"
| "own_field (JArr xs) field =
     (if field = ''length'' then Some (JNum (real (length xs)))
      else (case find (\<lambda>i. show_nat i = field) [0..<length xs] of
              Some i \<Rightarrow> Some (xs ! i)
            | None \<Rightarrow> None))"
| "own_field (JStr s) field =
     (if field = ''length'' then Some (JNum (real (length s)))
      else (case find (\<lambda>i. show_nat i = field) [0..<length s] of
              Some i \<Rightarrow> Some (JStr [s ! i])
            | None \<Rightarrow> None))"
| "own_field v field = None"

text \<open>
  \<^verbatim>\<open>parsedAttributes[field]\<close>: the own property of that name, else the member the runtime
  supplies through the prototype chain. Reading a property of undefined or null throws.
\<close>

fun get_field :: "runtime \<Rightarrow> read_value \<Rightarrow> string \<Rightarrow> js_error + read_value" where
  "get_field rt (Json JUndefined) field = Inl TypeError"
| "get_field rt (Json JNull) field = Inl TypeError"
| "get_field rt (Json v) field =
     (case own_field v field of
        Some w \<Rightarrow> Inr (Json w)
      | None \<Rightarrow> builtin_member rt (Json v) field)"
| "get_field rt (Native n) field = builtin_member rt (Native n) field"

text \<open>
  The method call \<^verbatim>\<open>value.toString()\<close> on a JSON value. On undefined and null the call throws.
  On every other value the method gives the string that the conversion above gives: an
  object that has an own property \<^verbatim>\<open>toString\<close> throws a TypeError, since that property cannot
  be called; any other object prints as \<^verbatim>\<open>[object Object]\<close>; an array joins the strings of its
  elements.
\<close>

fun json_toString :: "runtime \<Rightarrow> jsval \<Rightarrow> js_error + string" where
  "json_toString rt JUndefined = Inl TypeError"
| "json_toString rt JNull = Inl TypeError"
| "json_toString rt v = js_ToString (numberToString rt) v"

fun toString :: "runtime \<Rightarrow> read_value \<Rightarrow> js_error + string" where
  "toString rt (Json v) = json_toString rt v"
| "toString rt (Native n) = Inr (nativeToString rt n)"

text \<open>
  \<^verbatim>\<open>value?.toString() || ""\<close>: undefined and null skip the call; an empty result is replaced by
  the empty string.
\<close>

definition display_string :: "runtime \<Rightarrow> read_value \<Rightarrow> js_error + string" where
  "display_string rt v =
     (if v = Json JUndefined \<or> v = Json JNull then Inr []
      else (case toString rt v of
              Inl e \<Rightarrow> Inl e
            | Inr t \<Rightarrow> Inr (if t \<noteq> [] then t else [])))"

section \<open>Fields referenced by the structured filter\<close>

definition is_ident_start :: "char \<Rightarrow> bool" where
  "is_ident_start c \<longleftrightarrow>
     (CHR ''a'' \<le> c \<and> c \<le> CHR ''z'') \<or> (CHR ''A'' \<le> c \<and> c \<le> CHR ''Z'') \<or> c = CHR ''_''"

definition is_ident_char :: "char \<Rightarrow> bool" where
  "is_ident_char c \<longleftrightarrow> is_ident_start c \<or> (CHR ''0'' \<le> c \<and> c \<le> CHR ''9'')"

text \<open>
  \<^verbatim>\<open>searchFilter.match(/\.[a-zA-Z_][a-zA-Z0-9_]*/g)\<close>: the matches from left to right, each a
  dot, an identifier start and the longest run of identifier characters after it; the scan
  goes on after the end of a match.
\<close>

function field_matches :: "string \<Rightarrow> string list" where
  "field_matches [] = []"
| "field_matches (c # cs) =
     (if c = CHR ''.'' \<and> cs \<noteq> [] \<and> is_ident_start (hd cs)
      then (c # takeWhile is_ident_char cs) # field_matches (dropWhile is_ident_char cs)
      else field_matches cs)"
  by pat_completeness auto
termination
  by (relation "measure length") (auto simp: length_dropWhile_le le_imp_less_Suc)

text \<open>The \<^verbatim>\<open>filteredFields\<close> memo of lines 408 to 420.\<close>

definition filteredFields :: "string option \<Rightarrow> string list" where
  "filteredFields sf =
     (case sf of
        None \<Rightarrow> []
      | Some expr \<Rightarrow>
          if expr = [] then []
          else new_Set (map (\<lambda>field. drop 1 field) (field_matches expr)))"

section \<open>Column visibility and filtered field values\<close>

text \<open>\<^verbatim>\<open>!searchFilter\<close>: the filter is undefined or the empty string.\<close>

definition no_searchFilter :: "inputs \<Rightarrow> bool" where
  "no_searchFilter p \<longleftrightarrow> searchFilter p = None \<or> searchFilter p = Some []"

text \<open>
  The effect of lines 423 to 456. Both branches update \<^verbatim>\<open>availableColumns\<close> through an updater
  function, so they read the column list as it is when the update is applied.
\<close>

definition column_visibility_effect :: "inputs \<Rightarrow> state \<Rightarrow> state" where
  "column_visibility_effect p s =
     (if \<not> showAttributes p \<or> (showOnlyFilteredAttributes p \<and> no_searchFilter p) then
        s\<lparr>availableColumns :=
            map (\<lambda>col. col\<lparr>visible := (if ctype col = System then visible col else False)\<rparr>)
              (availableColumns s)\<rparr>
      else
        s\<lparr>availableColumns :=
            map (\<lambda>col.
                   if ctype col = System then col
                   else (let shouldBeVisible =
                               (\<not> showOnlyFilteredAttributes p \<or>
                                (showOnlyFilteredAttributes p \<and>
                                 name col \<in> set (filteredFields (searchFilter p))))
                         in col\<lparr>visible := shouldBeVisible\<rparr>))
              (availableColumns s)\<rparr>)"

text \<open>
  The assignment \<^verbatim>\<open>obj[key] = v\<close> on a dictionary, given as its own properties and its prototype.
  For every key but \<^verbatim>\<open>__proto__\<close> it creates or replaces the own property. For \<^verbatim>\<open>__proto__\<close> it does
  so only when the object already has an own property of that name or no longer inherits
  the accessor of \<^verbatim>\<open>Object.prototype\<close> (its prototype is null, or is a value with an own property
  \<^verbatim>\<open>__proto__\<close>, which shadows the accessor); otherwise the setter runs. \<open>shadows x\<close> says whether a
  prototype value \<open>x\<close> has an own property \<^verbatim>\<open>__proto__\<close>, and \<open>as_prototype v\<close> is the prototype
  that the setter installs for \<open>v\<close>, or \<open>None\<close> when \<open>v\<close> is neither an object nor null.
\<close>

fun accessor_reachable :: "('a \<Rightarrow> bool) \<Rightarrow> 'a proto \<Rightarrow> bool" where
  "accessor_reachable shadows ObjectPrototype = True"
| "accessor_reachable shadows NullPrototype = False"
| "accessor_reachable shadows (ValuePrototype x) = (\<not> shadows x)"

definition assign_property ::
  "('a \<Rightarrow> bool) \<Rightarrow> ('v \<Rightarrow> 'a proto option) \<Rightarrow> string \<Rightarrow> 'v \<Rightarrow>
   (string \<rightharpoonup> 'v) \<times> 'a proto \<Rightarrow> (string \<rightharpoonup> 'v) \<times> 'a proto" where
  "assign_property shadows as_prototype key v obj =
     (case obj of (own, pr) \<Rightarrow>
        if key = ''__proto__'' \<and> own key = None \<and> accessor_reachable shadows pr then
          (case as_prototype v of
             None \<Rightarrow> (own, pr)
           | Some pr' \<Rightarrow> (own, pr'))
        else (own(key \<mapsto> v), pr))"

text \<open>A raw payload is a string, null or undefined: only null changes the prototype.\<close>

fun payload_as_prototype :: "payload \<Rightarrow> payload proto option" where
  "payload_as_prototype Null = Some NullPrototype"
| "payload_as_prototype Undefined = None"
| "payload_as_prototype (Payload a) = None"

text \<open>A parsed value becomes the prototype when it is an object or an array, and null cuts it.\<close>

fun jsval_as_prototype :: "jsval \<Rightarrow> jsval proto option" where
  "jsval_as_prototype JNull = Some NullPrototype"
| "jsval_as_prototype (JObj kvs) = Some (ValuePrototype (JObj kvs))"
| "jsval_as_prototype (JArr xs) = Some (ValuePrototype (JArr xs))"
| "jsval_as_prototype v = None"

text \<open>
  \<^verbatim>\<open>parsedAttributeCache[element]\<close>: the own property; else what the prototype gives. From
  \<^verbatim>\<open>Object.prototype\<close> that is the member an empty object inherits; from a parsed value that took
  the place of the prototype it is that value's property, and for \<^verbatim>\<open>__proto__\<close> the value itself.
\<close>

definition parsed_cache_read ::
  "runtime \<Rightarrow> (string \<rightharpoonup> jsval) \<Rightarrow> jsval proto \<Rightarrow> string \<Rightarrow> js_error + read_value" where
  "parsed_cache_read rt own pr key =
     (case own key of
        Some v \<Rightarrow> Inr (Json v)
      | None \<Rightarrow>
          (case pr of
             ObjectPrototype \<Rightarrow> builtin_member rt (Json (JObj [])) key
           | NullPrototype \<Rightarrow> Inr (Json JUndefined)
           | ValuePrototype P \<Rightarrow>
               (case own_field P key of
                  Some v \<Rightarrow> Inr (Json v)
                | None \<Rightarrow>
                    if key = ''__proto__'' then Inr (Json P)
                    else builtin_member rt (Json P) key)))"

text \<open>
  The inner loop of lines 475 to 478, on the object \<^verbatim>\<open>newValues[element]\<close> that was created
  empty just before: one display string per filtered field, in order; the first read or
  \<^verbatim>\<open>toString\<close> call that throws ends the loop with that error. The object inherits the accessor
  of \<^verbatim>\<open>Object.prototype\<close>, so for the field \<^verbatim>\<open>__proto__\<close> the string is computed and the assignment
  stores nothing.
\<close>

fun field_values ::
  "runtime \<Rightarrow> read_value \<Rightarrow> string list \<Rightarrow> (string \<rightharpoonup> string) \<Rightarrow>
   js_error + (string \<rightharpoonup> string)" where
  "field_values rt parsedAttributes [] m = Inr m"
| "field_values rt parsedAttributes (field # rest) m =
     (case get_field rt parsedAttributes field of
        Inl e \<Rightarrow> Inl e
      | Inr v \<Rightarrow>
          (case display_string rt v of
             Inl e \<Rightarrow> Inl e
           | Inr t \<Rightarrow>
               field_values rt parsedAttributes rest
                 (if field = ''__proto__'' then m else m(field \<mapsto> t))))"

text \<open>
  The loop of lines 469 to 480 over the result rows, on \<^verbatim>\<open>newValues\<close>. A row whose element
  reads no truthy value from the parsed cache is skipped; a read that throws ends the loop.
  For the other rows \<^verbatim>\<open>newValues[element] = {}\<close> is an assignment as above, so for the element
  \<^verbatim>\<open>__proto__\<close> the new object becomes the prototype of \<^verbatim>\<open>newValues\<close>, and \<^verbatim>\<open>newValues[element]\<close>
  then reads that prototype: the fields are written to the same new object in both cases.
\<close>

fun filtered_values_loop ::
  "runtime \<Rightarrow> string list \<Rightarrow> (string \<rightharpoonup> jsval) \<Rightarrow> jsval proto \<Rightarrow> VectorTuple list \<Rightarrow>
   (string \<rightharpoonup> (string \<rightharpoonup> string)) \<times> (string \<rightharpoonup> string) proto \<Rightarrow>
   js_error + (string \<rightharpoonup> (string \<rightharpoonup> string)) \<times> (string \<rightharpoonup> string) proto" where
  "filtered_values_loop rt fieldNames parsedCache parsedProto [] newValues = Inr newValues"
| "filtered_values_loop rt fieldNames parsedCache parsedProto (row # rest) newValues =
     (let element = fst row in
      case parsed_cache_read rt parsedCache parsedProto element of
        Inl e \<Rightarrow> Inl e
      | Inr parsedAttributes \<Rightarrow>
          if truthy_value parsedAttributes then
            (case field_values rt parsedAttributes fieldNames Map.empty of
               Inl e \<Rightarrow> Inl e
             | Inr m \<Rightarrow>
                 filtered_values_loop rt fieldNames parsedCache parsedProto rest
                   (assign_property (\<lambda>x. x ''__proto__'' \<noteq> None) (\<lambda>x. Some (ValuePrototype x))
                      element m newValues))
          else filtered_values_loop rt fieldNames parsedCache parsedProto rest newValues)"

text \<open>
  The effect of lines 459 to 489. It reads \<^verbatim>\<open>parsedAttributeCache\<close> of the render it belongs
  to (the state \<open>rendered\<close>) and writes \<^verbatim>\<open>filteredFieldValues\<close> of the state \<open>s\<close>. When the loop
  throws, the effect throws before \<^verbatim>\<open>setFilteredFieldValues\<close> is called.
\<close>

definition filtered_values_effect :: "runtime \<Rightarrow> inputs \<Rightarrow> state \<Rightarrow> state \<Rightarrow> js_error + state" where
  "filtered_values_effect rt p rendered s =
     (if \<not> showAttributes p \<or> \<not> showOnlyFilteredAttributes p
         \<or> length (filteredFields (searchFilter p)) = 0
      then Inr s
      else (case filtered_values_loop rt (filteredFields (searchFilter p))
                   (parsedAttributeCache rendered) (parsedAttributeCachePrototype rendered)
                   (results p) (Map.empty, ObjectPrototype) of
              Inl e \<Rightarrow> Inl e
            | Inr (newValues, newValuesProto) \<Rightarrow>
                Inr (s\<lparr>filteredFieldValues := newValues,
                       filteredFieldValuesPrototype := newValuesProto\<rparr>)))"


section \<open>Fetching and processing attributes\<close>

text \<open>
  \<^verbatim>\<open>attributes[i]\<close> of the fetched array, whose entries are a string or null: an index past the
  end reads \<^verbatim>\<open>undefined\<close>.
\<close>

definition attribute_at :: "string option list \<Rightarrow> nat \<Rightarrow> payload" where
  "attribute_at attributes i =
     (if i < length attributes
      then (case attributes ! i of None \<Rightarrow> Null | Some a \<Rightarrow> Payload a)
      else Undefined)"

text \<open>
  The three accumulators of the loop of lines 350 to 370: \<^verbatim>\<open>newCache\<close>, \<^verbatim>\<open>newParsedCache\<close> and
  the set \<^verbatim>\<open>allAttributeColumns\<close>; the two objects with their prototypes.
\<close>

record batch =
  newCache :: "string \<rightharpoonup> payload"
  newCache_prototype :: "payload proto"
  newParsedCache :: "string \<rightharpoonup> jsval"
  newParsedCache_prototype :: "jsval proto"
  allAttributeColumns :: "string list"

text \<open>\<^verbatim>\<open>newCache[element] = attributes[i]\<close>, line 355.\<close>

definition store_raw :: "string \<Rightarrow> payload \<Rightarrow> batch \<Rightarrow> batch" where
  "store_raw element a acc =
     (case assign_property (\<lambda>x. False) payload_as_prototype element a
             (newCache acc, newCache_prototype acc) of
        (own, pr) \<Rightarrow> acc\<lparr>newCache := own, newCache_prototype := pr\<rparr>)"

text \<open>\<^verbatim>\<open>newParsedCache[element] = parsed\<close>, line 359.\<close>

definition store_parsed :: "string \<Rightarrow> jsval \<Rightarrow> batch \<Rightarrow> batch" where
  "store_parsed element parsed acc =
     (case assign_property (\<lambda>x. own_field x ''__proto__'' \<noteq> None) jsval_as_prototype element parsed
             (newParsedCache acc, newParsedCache_prototype acc) of
        (own, pr) \<Rightarrow> acc\<lparr>newParsedCache := own, newParsedCache_prototype := pr\<rparr>)"

text \<open>
  The body of \<^verbatim>\<open>elements.forEach((element, i) => ...)\<close>. \<^verbatim>\<open>JSON.parse\<close> is the parameter
  \<open>parse\<close>, with \<open>None\<close> for a thrown SyntaxError. The raw payload is assigned first. A payload
  that is null, undefined or the empty string is not parsed. The \<^verbatim>\<open>try\<close> block assigns the
  parsed value before it lists its keys, so when \<^verbatim>\<open>Object.keys\<close> throws the assignment has been
  made; either exception is caught inside the loop body, and the loop goes on.
\<close>

definition process_element ::
  "(string \<Rightarrow> jsval option) \<Rightarrow> string option list \<Rightarrow> string \<Rightarrow> nat \<Rightarrow> batch \<Rightarrow> batch" where
  "process_element parse attributes element i acc =
     (let acc1 = store_raw element (attribute_at attributes i) acc in
      case attribute_at attributes i of
        Payload a \<Rightarrow>
          if a \<noteq> [] then
            (case parse a of
               None \<Rightarrow> acc1
             | Some parsed \<Rightarrow>
                 (let acc2 = store_parsed element parsed acc1 in
                  case object_keys parsed of
                    None \<Rightarrow> acc2
                  | Some keys \<Rightarrow>
                      acc2\<lparr>allAttributeColumns :=
                             fold (\<lambda>key cols. set_add cols key) keys (allAttributeColumns acc2)\<rparr>))
          else acc1
      | Null \<Rightarrow> acc1
      | Undefined \<Rightarrow> acc1)"

fun forEach_element ::
  "(string \<Rightarrow> jsval option) \<Rightarrow> string option list \<Rightarrow> nat \<Rightarrow> string list \<Rightarrow> batch \<Rightarrow> batch" where
  "forEach_element parse attributes i [] acc = acc"
| "forEach_element parse attributes i (element # rest) acc =
     forEach_element parse attributes (Suc i) rest (process_element parse attributes element i acc)"

text \<open>
  Two abbreviations for stating what the loop does at index \<open>i\<close>: the value the loop assigns
  in the parsed cache there, if any (the payload is a non-empty string that parses), and the
  column names it adds there.
\<close>

definition parsed_at :: "(string \<Rightarrow> jsval option) \<Rightarrow> string option list \<Rightarrow> nat \<Rightarrow> jsval option" where
  "parsed_at parse attributes i =
     (case attribute_at attributes i of
        Payload a \<Rightarrow> if a \<noteq> [] then parse a else None
      | _ \<Rightarrow> None)"

definition keys_at :: "(string \<Rightarrow> jsval option) \<Rightarrow> string option list \<Rightarrow> nat \<Rightarrow> string set" where
  "keys_at parse attributes i =
     (case parsed_at parse attributes i of
        None \<Rightarrow> {}
      | Some parsed \<Rightarrow> (case object_keys parsed of None \<Rightarrow> {} | Some keys \<Rightarrow> set keys))"


text \<open>
  What one run of the fetch effect (lines 337 to 405) closes over: the element list of its
  render, the \<^verbatim>\<open>attributeCache\<close> of its render, and its own \<^verbatim>\<open>isCancelled\<close> flag, which the
  cleanup function of the effect sets. The field \<open>settled\<close> records that the promise of
  \<^verbatim>\<open>fetchAttributes\<close> has resolved, which happens once. Of the captured \<^verbatim>\<open>attributeCache\<close> the
  closure uses the own properties only (\<^verbatim>\<open>{ ...attributeCache }\<close>).
\<close>

record fetch_closure =
  closure_elements :: "string list"
  closure_attributeCache :: "string \<rightharpoonup> payload"
  isCancelled :: bool
  settled :: bool

text \<open>
  \<^verbatim>\<open>fetchAndProcessAttributes\<close> after the \<^verbatim>\<open>await\<close>. The argument \<open>attributes\<close> is the value of
  \<^verbatim>\<open>fetchAttributes\<close>: \<open>None\<close> is the \<^verbatim>\<open>null\<close> it returns for a failed request. \<^verbatim>\<open>newCache\<close> is a
  new object with the own properties of the \<^verbatim>\<open>attributeCache\<close> the closure holds; the columns
  are set through an updater function and so start from the column list of the state \<open>s\<close> the
  update is applied to. The \<^verbatim>\<open>finally\<close> block clears the loading flag unless the run was
  cancelled.
\<close>

definition fetchAndProcessAttributes ::
  "(string \<Rightarrow> jsval option) \<Rightarrow> inputs \<Rightarrow> fetch_closure \<Rightarrow> string option list option \<Rightarrow>
   state \<Rightarrow> state" where
  "fetchAndProcessAttributes parse p closure attributes s =
     (if isCancelled closure then s
      else (case attributes of
              None \<Rightarrow> s\<lparr>isLoadingAttributes := False\<rparr>
            | Some attrs \<Rightarrow>
                (let b = forEach_element parse attrs 0 (closure_elements closure)
                           \<lparr>newCache = closure_attributeCache closure,
                            newCache_prototype = ObjectPrototype,
                            newParsedCache = Map.empty,
                            newParsedCache_prototype = ObjectPrototype,
                            allAttributeColumns = []\<rparr>
                 in s\<lparr>attributeCache := newCache b,
                      attributeCachePrototype := newCache_prototype b,
                      parsedAttributeCache := newParsedCache b,
                      parsedAttributeCachePrototype := newParsedCache_prototype b,
                      availableColumns :=
                        filter (\<lambda>col. ctype col = System) (availableColumns s) @
                        map (\<lambda>colName. \<lparr>name = colName,
                                         visible = getColumnVisibility p colName True,
                                         ctype = Attribute\<rparr>)
                          (allAttributeColumns b),
                      isLoadingAttributes := False\<rparr>)))"

section \<open>Edits and toggles\<close>

text \<open>
  \<^verbatim>\<open>handleAttributesDialogClose(updatedAttributes)\<close>, lines 492 to 533. The argument is \<open>None\<close>
  when the dialog is closed without saving. Both tests are truthiness tests, so an empty
  payload or an element with the empty name counts as absent. The raw cache is updated first;
  the parsed cache is updated when the payload parses; the columns gain, at the end of the
  list and visible, each key that names no existing column. Each cache is replaced by a new
  object literal \<^verbatim>\<open>{ ...prev, [editingAttributes]: value }\<close>: it has the own properties of the
  old one, the computed key defines an own property whatever its name, and its prototype is
  \<^verbatim>\<open>Object.prototype\<close>.
\<close>

definition handleAttributesDialogClose ::
  "(string \<Rightarrow> jsval option) \<Rightarrow> string option \<Rightarrow> state \<Rightarrow> state" where
  "handleAttributesDialogClose parse updatedAttributes s =
     (let s' =
        (case (updatedAttributes, editingAttributes s) of
           (Some updated, Some element) \<Rightarrow>
             if updated \<noteq> [] \<and> element \<noteq> [] then
               (let s1 = s\<lparr>attributeCache := (attributeCache s)(element \<mapsto> Payload updated),
                           attributeCachePrototype := ObjectPrototype\<rparr> in
                case parse updated of
                  None \<Rightarrow> s1
                | Some parsed \<Rightarrow>
                    (let s2 = s1\<lparr>parsedAttributeCache :=
                                   (parsedAttributeCache s1)(element \<mapsto> parsed),
                                 parsedAttributeCachePrototype := ObjectPrototype\<rparr> in
                     case object_keys parsed of
                       None \<Rightarrow> s2
                     | Some keys \<Rightarrow>
                         s2\<lparr>availableColumns :=
                              availableColumns s2 @
                              map (\<lambda>colName. \<lparr>name = colName, visible = True, ctype = Attribute\<rparr>)
                                (filter (\<lambda>colName. colName \<notin> set (map name (availableColumns s2)))
                                   (new_Set keys))\<rparr>))
             else s
         | _ \<Rightarrow> s)
      in s'\<lparr>editingAttributes := None\<rparr>)"

text \<open>
  \<^verbatim>\<open>handleToggleColumn\<close>, lines 602 to 610, and the same update for a system column in the
  menu (lines 950 to 968). Persisting the choice is the business of the settings hook.
\<close>

definition handleToggleColumn :: "string \<Rightarrow> bool \<Rightarrow> state \<Rightarrow> state" where
  "handleToggleColumn columnName vis s =
     s\<lparr>availableColumns :=
         map (\<lambda>c. if name c = columnName then c\<lparr>visible := vis\<rparr> else c) (availableColumns s)\<rparr>"


section \<open>The component over time\<close>

text \<open>
  The component as a state machine. \<open>props\<close> are the inputs of the last render, \<open>st\<close> the state
  cells, \<open>fetches\<close> every closure that a run of the fetch effect has created (a store, indexed
  by position), and \<open>cleanup\<close> the closure that the pending cleanup function of the fetch effect
  will cancel, if its last run returned one. \<open>effect_failed\<close> records that a run of the
  filtered-values effect has thrown. React hands such an error to the error boundary above
  the component, which is not part of this code, and removes the component. The state
  machine does not stop there: it keeps the component, with the state that the throw left,
  so what holds of every state it reaches holds of every state the component reaches.
\<close>

record component =
  props :: inputs
  st :: state
  fetches :: "fetch_closure list"
  cleanup :: "nat option"
  effect_failed :: bool

text \<open>The cleanup function \<^verbatim>\<open>() => { isCancelled = true }\<close> of the last run of the fetch effect.\<close>

definition run_cleanup :: "component \<Rightarrow> component" where
  "run_cleanup c =
     (case cleanup c of
        None \<Rightarrow> c
      | Some j \<Rightarrow>
          if j < length (fetches c)
          then c\<lparr>fetches := (fetches c)[j := (fetches c ! j)\<lparr>isCancelled := True\<rparr>], cleanup := None\<rparr>
          else c\<lparr>cleanup := None\<rparr>)"

text \<open>
  The body of the fetch effect up to the \<^verbatim>\<open>await\<close>, for a render with inputs \<open>p\<close> that saw the
  state \<open>rendered\<close>: nothing happens when attributes are off or there are no results; otherwise
  a closure over the element list and over \<^verbatim>\<open>attributeCache\<close> of that render is created, the
  loading flag is set and the request is sent.
\<close>

definition fetch_effect :: "inputs \<Rightarrow> state \<Rightarrow> component \<Rightarrow> component" where
  "fetch_effect p rendered c =
     (if \<not> showAttributes p \<or> length (results p) = 0 then c
      else c\<lparr>fetches := fetches c @
                 [\<lparr>closure_elements = map fst (results p),
                   closure_attributeCache = attributeCache rendered,
                   isCancelled = False, settled = False\<rparr>],
             cleanup := Some (length (fetches c)),
             st := (st c)\<lparr>isLoadingAttributes := True\<rparr>\<rparr>)"

text \<open>
  One run of the filtered-values effect for a render that saw the state \<open>rendered\<close>: its update
  is applied to the state of the component, or, when it throws, no update is made and the
  throw is recorded.
\<close>

definition run_filtered_values :: "runtime \<Rightarrow> inputs \<Rightarrow> state \<Rightarrow> component \<Rightarrow> component" where
  "run_filtered_values rt p rendered c =
     (case filtered_values_effect rt p rendered (st c) of
        Inl e \<Rightarrow> c\<lparr>effect_failed := True\<rparr>
      | Inr s \<Rightarrow> c\<lparr>st := s\<rparr>)"

text \<open>
  The effects of one render with inputs \<open>p\<close>, in the order of their declaration. The flags say
  which dependencies changed. All these effects belong to one render, which saw the state
  \<open>rendered\<close>: values they read directly come from there, while their state updates accumulate
  in effect order. The cleanup of the fetch effect runs before any effect body. The result
  is the state that the next render of the component sees and shows.
\<close>

definition effect_flush ::
  "runtime \<Rightarrow> inputs \<Rightarrow> bool \<Rightarrow> bool \<Rightarrow> bool \<Rightarrow> bool \<Rightarrow> bool \<Rightarrow> component \<Rightarrow> component" where
  "effect_flush rt p key res sa so sf c =
     (let rendered = st c;
          c0 = c\<lparr>props := p\<rparr>;
          c1 = (if sa \<or> res \<or> key then run_cleanup c0 else c0);
          c2 = (if key then c1\<lparr>st := keyName_reset_effect p (selection_clear_effect (st c1))\<rparr> else c1);
          c3 = (if sa \<or> res \<or> key then fetch_effect p rendered c2 else c2);
          c4 = (if sa \<or> so \<or> sf then c3\<lparr>st := column_visibility_effect p (st c3)\<rparr> else c3)
      in if sa \<or> so \<or> sf \<or> res then run_filtered_values rt p rendered c4 else c4)"

text \<open>
  A commit of a render with inputs \<open>p\<close>, up to the point where no effect is left to run. When
  the reset effect has replaced \<^verbatim>\<open>parsedAttributeCache\<close>, the render that follows the effects
  runs the filtered-values effect once more, now seeing the updated state.
\<close>

definition commit ::
  "runtime \<Rightarrow> inputs \<Rightarrow> bool \<Rightarrow> bool \<Rightarrow> bool \<Rightarrow> bool \<Rightarrow> bool \<Rightarrow> component \<Rightarrow> component" where
  "commit rt p key res sa so sf c =
     (let c5 = effect_flush rt p key res sa so sf c
      in if key then run_filtered_values rt p (st c5) c5 else c5)"

text \<open>The first render: every effect runs, on the initial state.\<close>

definition mount :: "runtime \<Rightarrow> inputs \<Rightarrow> component" where
  "mount rt p =
     commit rt p True True True True True
       \<lparr>props = p, st = initial_state, fetches = [], cleanup = None, effect_failed = False\<rparr>"

text \<open>
  What can happen to a mounted component. \<open>Rerender p fresh\<close> is a render with new inputs;
  \<open>fresh\<close> says that \<^verbatim>\<open>results\<close> is a new array even if its content is the same, since React
  compares dependencies by identity. \<open>FetchResolved i attributes\<close> is the request of closure
  \<open>i\<close> coming back. The others are handlers of the user interface. The selection handlers
  are left out: they write \<^verbatim>\<open>selectMode\<close> and \<^verbatim>\<open>selectedElements\<close> only.
\<close>

datatype event =
    Rerender inputs bool
  | FetchResolved nat "string option list option"
  | EditAttributes string
  | AttributesDialogClosed "string option"
  | SortClicked SortColumn
  | ColumnToggled string bool
  | FilterTextChanged string

text \<open>Whether \<^verbatim>\<open>handleAttributesDialogClose\<close> calls \<^verbatim>\<open>setParsedAttributeCache\<close>.\<close>

definition dialog_sets_parsed :: "(string \<Rightarrow> jsval option) \<Rightarrow> string option \<Rightarrow> state \<Rightarrow> bool" where
  "dialog_sets_parsed parse updatedAttributes s =
     (case (updatedAttributes, editingAttributes s) of
        (Some updated, Some element) \<Rightarrow> updated \<noteq> [] \<and> element \<noteq> [] \<and> parse updated \<noteq> None
      | _ \<Rightarrow> False)"

text \<open>
  One event. After an update of \<^verbatim>\<open>parsedAttributeCache\<close> by a response or by the dialog, the
  next render runs the filtered-values effect.
\<close>

fun step ::
  "(string \<Rightarrow> jsval option) \<Rightarrow> runtime \<Rightarrow> event \<Rightarrow> component \<Rightarrow> component" where
  "step parse rt (Rerender p fresh) c =
     commit rt p
       (keyName p \<noteq> keyName (props c))
       (fresh \<or> results p \<noteq> results (props c))
       (showAttributes p \<noteq> showAttributes (props c))
       (showOnlyFilteredAttributes p \<noteq> showOnlyFilteredAttributes (props c))
       (searchFilter p \<noteq> searchFilter (props c))
       c"
| "step parse rt (FetchResolved i attributes) c =
     (if i < length (fetches c) \<and> \<not> settled (fetches c ! i) then
        (let closure = fetches c ! i;
             c1 = c\<lparr>st := fetchAndProcessAttributes parse (props c) closure attributes (st c),
                    fetches := (fetches c)[i := closure\<lparr>settled := True\<rparr>]\<rparr>
         in if \<not> isCancelled closure \<and> attributes \<noteq> None
            then run_filtered_values rt (props c1) (st c1) c1 else c1)
      else c)"
| "step parse rt (EditAttributes element) c =
     c\<lparr>st := (st c)\<lparr>editingAttributes := Some element\<rparr>\<rparr>"
| "step parse rt (AttributesDialogClosed updatedAttributes) c =
     (let c1 = c\<lparr>st := handleAttributesDialogClose parse updatedAttributes (st c)\<rparr>
      in if dialog_sets_parsed parse updatedAttributes (st c)
         then run_filtered_values rt (props c1) (st c1) c1 else c1)"
| "step parse rt (SortClicked column) c =
     c\<lparr>st := handleSort column (st c)\<rparr>"
| "step parse rt (ColumnToggled columnName vis) c =
     c\<lparr>st := handleToggleColumn columnName vis (st c)\<rparr>"
| "step parse rt (FilterTextChanged t) c =
     c\<lparr>st := (st c)\<lparr>filterText := t\<rparr>\<rparr>"

text \<open>A sequence of events, from left to right.\<close>

fun run ::
  "(string \<Rightarrow> jsval option) \<Rightarrow> runtime \<Rightarrow> event list \<Rightarrow> component \<Rightarrow> component" where
  "run parse rt [] c = c"
| "run parse rt (e # es) c = run parse rt es (step parse rt e c)"


text \<open>
  Every closure of the fetch effect, except the one its last run created, has been cancelled:
  this holds from the mount on, since the cleanup of a run precedes the next run.
\<close>

definition closures_superseded :: "component \<Rightarrow> bool" where
  "closures_superseded c \<longleftrightarrow>
     (\<forall>i<length (fetches c). isCancelled (fetches c ! i) \<or> cleanup c = Some i)"


section \<open>The result view: \<^verbatim>\<open>filteredAndSortedResults\<close>\<close>

text \<open>
  \<^verbatim>\<open>Array.prototype.sort\<close> with a comparison function is a stable sort: an element is placed
  before the first element it does not compare greater than. \<^verbatim>\<open>[...processed].sort\<close> sorts a
  copy, so the input list is not changed.
\<close>

fun insert_sorted :: "('a \<Rightarrow> 'a \<Rightarrow> real) \<Rightarrow> 'a \<Rightarrow> 'a list \<Rightarrow> 'a list" where
  "insert_sorted cmp x [] = [x]"
| "insert_sorted cmp x (y # ys) =
     (if cmp x y \<le> 0 then x # y # ys else y # insert_sorted cmp x ys)"

definition array_sort :: "('a \<Rightarrow> 'a \<Rightarrow> real) \<Rightarrow> 'a list \<Rightarrow> 'a list" where
  "array_sort cmp xs = foldr (insert_sorted cmp) xs []"

text \<open>The comparison function handed to \<^verbatim>\<open>sort\<close> (lines 574 to 583).\<close>

definition compare_rows ::
  "(string \<Rightarrow> string \<Rightarrow> int) \<Rightarrow> SortColumn \<Rightarrow> SortDirection \<Rightarrow> VectorTuple \<Rightarrow> VectorTuple \<Rightarrow> real" where
  "compare_rows localeCompare sortCol sortDir a b =
     (if sortCol = Col_element then
        (let comparison = real_of_int (localeCompare (fst a) (fst b))
         in if sortDir = Asc then comparison else - comparison)
      else
        (let comparison = snd a - snd b
         in if sortDir = Asc then comparison else - comparison))"

text \<open>
  \<^verbatim>\<open>String.prototype.trim\<close>, \<^verbatim>\<open>toLowerCase\<close> and \<^verbatim>\<open>localeCompare\<close> belong to the JavaScript
  runtime and are parameters. \<^verbatim>\<open>a.includes(b)\<close> holds when \<open>b\<close> is a contiguous part of \<open>a\<close>.
  The text that is searched for is the lower-cased \<^verbatim>\<open>filterText\<close> as typed; only the test
  whether to filter at all looks at the trimmed text.
\<close>

definition filteredAndSortedResults ::
  "(string \<Rightarrow> string) \<Rightarrow> (string \<Rightarrow> string) \<Rightarrow> (string \<Rightarrow> string \<Rightarrow> int) \<Rightarrow>
   VectorTuple list \<Rightarrow> string \<Rightarrow> SortColumn \<Rightarrow> SortDirection \<Rightarrow> VectorTuple list" where
  "filteredAndSortedResults trim toLowerCase localeCompare rows ftext sortCol sortDir =
     (let processed =
            (if trim ftext \<noteq> [] then
               (let lowerFilter = toLowerCase ftext
                in filter (\<lambda>row. sublist lowerFilter (toLowerCase (fst row))) rows)
             else rows)
      in if sortCol = Col_none then processed
         else array_sort (compare_rows localeCompare sortCol sortDir) processed)"


section \<open>A sample runtime for the examples\<close>

text \<open>
  Instances of the runtime's string functions on ASCII text, used only to run the model on
  concrete inputs: lower-casing of the letters A to Z, trimming of blanks, and comparison by
  character code.
\<close>

definition ascii_toLowerCase :: "string \<Rightarrow> string" where
  "ascii_toLowerCase s =
     map (\<lambda>c. case map_of (zip ''ABCDEFGHIJKLMNOPQRSTUVWXYZ'' ''abcdefghijklmnopqrstuvwxyz'') c of
                Some l \<Rightarrow> l | None \<Rightarrow> c) s"

definition ascii_trim :: "string \<Rightarrow> string" where
  "ascii_trim s = rev (dropWhile (\<lambda>c. c = CHR '' '') (rev (dropWhile (\<lambda>c. c = CHR '' '') s)))"

definition ordinal_compare :: "string \<Rightarrow> string \<Rightarrow> int" where
  "ordinal_compare a b = (if a < b then - 1 else if a = b then 0 else 1)"

text \<open>A stand-in for \<^verbatim>\<open>validateKeyName\<close>: a key name is a non-empty string.\<close>

definition nonempty_key :: "jsval \<Rightarrow> bool" where
  "nonempty_key k = (case k of JStr s \<Rightarrow> s \<noteq> [] | _ \<Rightarrow> False)"

text \<open>A rendering of whole numbers, for examples whose numbers are whole.\<close>

definition sample_numberToString :: "real \<Rightarrow> string" where
  "sample_numberToString x =
     (if x < 0 then CHR ''-'' # show_nat (nat \<lfloor>- x\<rfloor>) else show_nat (nat \<lfloor>x\<rfloor>))"

text \<open>
  The members that a plain object inherits from \<^verbatim>\<open>Object.prototype\<close>, each known by its name:
  \<^verbatim>\<open>constructor\<close> is the function \<^verbatim>\<open>Object\<close>, \<^verbatim>\<open>__proto__\<close> reads \<^verbatim>\<open>Object.prototype\<close> itself, and the
  others are functions of their own names. Of a built-in the sample knows the accessors
  \<^verbatim>\<open>caller\<close> and \<^verbatim>\<open>arguments\<close>, which throw. The examples read no other member.
\<close>

definition sample_builtin_member :: "read_value \<Rightarrow> string \<Rightarrow> js_error + read_value" where
  "sample_builtin_member v key =
     (case v of
        Json (JObj kvs) \<Rightarrow>
          if key = ''constructor'' then Inr (Native ''Object'')
          else if key = ''__proto__'' then Inr (Native ''Object.prototype'')
          else if key \<in> set [''toString'', ''toLocaleString'', ''valueOf'', ''hasOwnProperty'',
                             ''isPrototypeOf'', ''propertyIsEnumerable'', ''__defineGetter__'',
                             ''__defineSetter__'', ''__lookupGetter__'', ''__lookupSetter__'']
          then Inr (Native key)
          else Inr (Json JUndefined)
      | Native n \<Rightarrow> if key \<in> set [''caller'', ''arguments''] then Inl TypeError
                    else Inr (Json JUndefined)
      | _ \<Rightarrow> Inr (Json JUndefined))"

text \<open>How these print: the prototype object as any plain object, a function by its name.\<close>

definition sample_nativeToString :: "string \<Rightarrow> string" where
  "sample_nativeToString n =
     (if n = ''Object.prototype'' then ''[object Object]''
      else ''function '' @ n @ ''() { [native code] }'')"

definition sample_runtime :: runtime where
  "sample_runtime =
     \<lparr>numberToString = sample_numberToString,
      nativeToString = sample_nativeToString,
      builtin_member = sample_builtin_member\<rparr>"

text \<open>\<^verbatim>\<open>JSON.parse\<close> on the payloads that the examples use; any other text does not parse.\<close>

definition sample_parse :: "string \<Rightarrow> jsval option" where
  \<open>sample_parse =
     map_of
       [(''{"color":"red"}'', JObj [(''color'', JStr ''red'')]),
        (''{"color":""}'', JObj [(''color'', JStr [])]),
        (''{"size":3}'', JObj [(''size'', JNum 3)]),
        (''{}'', JObj []),
        (''null'', JNull)]\<close>

text \<open>Two visibility preferences: nothing recorded, and the column \<^verbatim>\<open>color\<close> hidden by the user.\<close>

definition default_visibility :: "string \<Rightarrow> bool \<Rightarrow> bool" where
  "default_visibility columnName defaultVisible = defaultVisible"

definition color_hidden :: "string \<Rightarrow> bool \<Rightarrow> bool" where
  "color_hidden columnName defaultVisible =
     (if columnName = ''color'' then False else defaultVisible)"

text \<open>
  Inputs with attributes shown, filtered-only mode off and no filter, under the preference that
  hides \<^verbatim>\<open>color\<close>; and a state whose column list has the hidden attribute column \<^verbatim>\<open>color\<close>.
\<close>

definition unfiltered_inputs :: inputs where
  "unfiltered_inputs =
     \<lparr>keyName = ''fruits'', results = [(''e1'', 0.9)], searchFilter = None,
      showAttributes = True, showOnlyFilteredAttributes = False,
      getColumnVisibility = color_hidden\<rparr>"

definition color_hidden_state :: state where
  "color_hidden_state =
     initial_state\<lparr>availableColumns :=
       [\<lparr>name = ''element'', visible = True, ctype = System\<rparr>,
        \<lparr>name = ''score'', visible = True, ctype = System\<rparr>,
        \<lparr>name = ''color'', visible = False, ctype = Attribute\<rparr>]\<rparr>"

text \<open>
  Inputs in filtered-only mode with a filter on \<^verbatim>\<open>color\<close>, and a state in which the element
  \<^verbatim>\<open>e1\<close> has the parsed attributes \<^verbatim>\<open>{"color": ""}\<close> and \<^verbatim>\<open>e2\<close> has \<^verbatim>\<open>{"color": null}\<close>.
\<close>

definition filtered_inputs :: inputs where
  \<open>filtered_inputs =
     \<lparr>keyName = ''fruits'', results = [(''e1'', 0.9), (''e2'', 0.5)],
      searchFilter = Some ''.color == ""'',
      showAttributes = True, showOnlyFilteredAttributes = True,
      getColumnVisibility = default_visibility\<rparr>\<close>

definition empty_color_state :: state where
  "empty_color_state =
     initial_state\<lparr>parsedAttributeCache :=
       [''e1'' \<mapsto> JObj [(''color'', JStr [])], ''e2'' \<mapsto> JObj [(''color'', JNull)]]\<rparr>"


definition red_color_state :: state where
  "red_color_state =
     initial_state\<lparr>parsedAttributeCache := [''e1'' \<mapsto> JObj [(''color'', JStr ''red'')]]\<rparr>"


text \<open>
  A short history of the component: it mounts on the dataset \<^verbatim>\<open>fruits\<close> with the single result
  \<^verbatim>\<open>e1\<close>, whose attributes arrive as \<^verbatim>\<open>{"color":"red"}\<close>; then either the results change to
  \<^verbatim>\<open>e2\<close> within the same dataset, or the dataset changes to \<^verbatim>\<open>animals\<close> with the result \<^verbatim>\<open>e2\<close>.
\<close>

definition fruits_e1 :: inputs where
  "fruits_e1 =
     \<lparr>keyName = ''fruits'', results = [(''e1'', 0.9)], searchFilter = None,
      showAttributes = True, showOnlyFilteredAttributes = False,
      getColumnVisibility = default_visibility\<rparr>"

definition fruits_e2 :: inputs where
  "fruits_e2 = fruits_e1\<lparr>results := [(''e2'', 0.5)]\<rparr>"

definition animals_e2 :: inputs where
  "animals_e2 = fruits_e1\<lparr>keyName := ''animals'', results := [(''e2'', 0.5)]\<rparr>"

definition fruits_loaded :: component where
  \<open>fruits_loaded =
     step sample_parse sample_runtime (FetchResolved 0 (Some [Some ''{"color":"red"}'']))
       (mount sample_runtime fruits_e1)\<close>

definition fruits_next_results :: component where
  "fruits_next_results =
     step sample_parse sample_runtime (Rerender fruits_e2 True) fruits_loaded"

definition animals_selected :: component where
  "animals_selected =
     step sample_parse sample_runtime (Rerender animals_e2 True) fruits_loaded"

text \<open>
  A second history from the same start: the user hides the column \<^verbatim>\<open>color\<close>, which the settings
  hook records, so that the following renders see the preference that hides \<^verbatim>\<open>color\<close>; then
  filtered-only mode is switched on, with no filter expression, and off again.
\<close>

definition color_toggled_off :: component where
  "color_toggled_off = step sample_parse sample_runtime (ColumnToggled ''color'' False) fruits_loaded"

definition fruits_mode_on :: inputs where
  "fruits_mode_on =
     fruits_e1\<lparr>getColumnVisibility := color_hidden, showOnlyFilteredAttributes := True\<rparr>"

definition fruits_mode_off :: inputs where
  "fruits_mode_off = fruits_e1\<lparr>getColumnVisibility := color_hidden\<rparr>"

definition mode_entered :: component where
  "mode_entered = step sample_parse sample_runtime (Rerender fruits_mode_on False) color_toggled_off"

definition mode_left :: component where
  "mode_left = step sample_parse sample_runtime (Rerender fruits_mode_off False) mode_entered"

text \<open>
  A third history, in filtered-only mode with a filter on \<^verbatim>\<open>color\<close>: the component mounts on
  \<^verbatim>\<open>fruits\<close> with the result \<^verbatim>\<open>e1\<close>, whose attributes arrive as \<^verbatim>\<open>{"color":"red"}\<close>; then the dataset
  changes to \<^verbatim>\<open>animals\<close>, whose results, a new array, have an element \<^verbatim>\<open>e1\<close> as well.
  \<open>animals_first_flush\<close> is the component after the effects of the render that saw the new
  \<^verbatim>\<open>keyName\<close>, and \<open>animals_settled\<close> after the render that follows them.
\<close>

definition fruits_filtered :: inputs where
  \<open>fruits_filtered =
     \<lparr>keyName = ''fruits'', results = [(''e1'', 0.9)],
      searchFilter = Some ''.color == "red"'',
      showAttributes = True, showOnlyFilteredAttributes = True,
      getColumnVisibility = default_visibility\<rparr>\<close>

definition animals_filtered :: inputs where
  "animals_filtered = fruits_filtered\<lparr>keyName := ''animals''\<rparr>"

definition fruits_filtered_loaded :: component where
  \<open>fruits_filtered_loaded =
     step sample_parse sample_runtime (FetchResolved 0 (Some [Some ''{"color":"red"}'']))
       (mount sample_runtime fruits_filtered)\<close>

definition animals_first_flush :: component where
  "animals_first_flush =
     effect_flush sample_runtime animals_filtered True True False False False fruits_filtered_loaded"

definition animals_settled :: component where
  "animals_settled =
     step sample_parse sample_runtime (Rerender animals_filtered True) fruits_filtered_loaded"

text \<open>A batch of three elements whose second payload is not well-formed.\<close>

definition three_elements :: fetch_closure where
  "three_elements =
     \<lparr>closure_elements = [''e1'', ''e2'', ''e3''], closure_attributeCache = Map.empty,
      isCancelled = False, settled = False\<rparr>"

definition three_payloads :: "string option list" where
  \<open>three_payloads = [Some ''{"color":"red"}'', Some ''{"color":'', Some ''{"size":3}'']\<close>

text \<open>
  A batch of two elements, the first of which is named \<^verbatim>\<open>__proto__\<close> and has a payload that is
  not well-formed; and a state in which the attribute dialog is open on that element.
\<close>

definition proto_elements :: fetch_closure where
  "proto_elements =
     \<lparr>closure_elements = [''__proto__'', ''e2''], closure_attributeCache = Map.empty,
      isCancelled = False, settled = False\<rparr>"

definition proto_payloads :: "string option list" where
  \<open>proto_payloads = [Some ''{"color":'', Some ''{"size":3}'']\<close>

definition editing_proto :: state where
  "editing_proto = initial_state\<lparr>editingAttributes := Some ''__proto__''\<rparr>"

definition proto_parsed_payloads :: "string option list" where
  \<open>proto_parsed_payloads = [Some ''{"color":"red"}'', Some ''{"size":3}'']\<close>

text \<open>
  Three more inputs and a state for the filtered-values effect: a filter on the field
  \<^verbatim>\<open>constructor\<close>, a result row whose element is named \<^verbatim>\<open>constructor\<close>, and parsed attributes
  whose field \<^verbatim>\<open>color\<close> is an object with a property \<^verbatim>\<open>toString\<close>.
\<close>

definition constructor_filter_inputs :: inputs where
  \<open>constructor_filter_inputs =
     filtered_inputs\<lparr>searchFilter := Some ''.constructor == 1'', results := [(''e1'', 0.9)]\<rparr>\<close>

definition constructor_row_inputs :: inputs where
  \<open>constructor_row_inputs = filtered_inputs\<lparr>results := [(''constructor'', 0.9)]\<rparr>\<close>

definition throwing_color_state :: state where
  "throwing_color_state =
     initial_state\<lparr>parsedAttributeCache :=
       [''e1'' \<mapsto> JObj [(''color'', JObj [(''toString'', JNum 1)])]]\<rparr>"

section \<open>Properties of the bulk key-metadata command\<close>

lemma first_invalid_None: "first_invalid v ks = None \<longleftrightarrow> (\<forall>k\<in>set ks. v k)"
  by (induction ks) auto

lemma first_invalid_Some: "first_invalid v ks = Some k \<Longrightarrow> k \<in> set ks \<and> \<not> v k"
  by (induction ks) (auto split: if_splits)

lemma body_field_total:
  "body \<noteq> JUndefined \<Longrightarrow> body \<noteq> JNull \<Longrightarrow> \<exists>v. body_field body p = Inr v"
  by (cases body) auto

lemma body_field_defined:
  "body_field body p = Inr v \<Longrightarrow> body \<noteq> JUndefined \<and> body \<noteq> JNull"
  by (cases body) auto

text \<open>
  What validation returns for a request body on which \<^verbatim>\<open>body.keyNames\<close> can be read, with \<open>kn\<close>
  the value of that property, when every entry of \<open>kn\<close> has a string form: it returns invalid
  with an error exactly when \<open>kn\<close> is missing, is not an array, is empty, or has an entry that
  fails key-name validation; it returns valid exactly in the other case; and for a valid
  request the command built is one \<^verbatim>\<open>['VINFO', keyName]\<close> per key name, in input order.
\<close>

lemma validateVinfoMultiRequest_returns:
  assumes "body_field body ''keyNames'' = Inr kn"
      and "\<forall>k\<in>set (elems kn). \<exists>t. js_ToString n k = Inr t"
  shows "((\<exists>e. validateVinfoMultiRequest n vk body = Inr (Invalid e)) \<longleftrightarrow>
            (kn = JUndefined \<or> \<not> isArray kn \<or> elems kn = [] \<or> (\<exists>k\<in>set (elems kn). \<not> vk k)))
       \<and> ((\<exists>req. validateVinfoMultiRequest n vk body = Inr (Valid req)) \<longleftrightarrow>
            \<not> (kn = JUndefined \<or> \<not> isArray kn \<or> elems kn = [] \<or> (\<exists>k\<in>set (elems kn). \<not> vk k)))
       \<and> (\<forall>req. validateVinfoMultiRequest n vk body = Inr (Valid req) \<longrightarrow>
            keyNames req = elems kn
          \<and> buildVinfoMultiCommand req = map (\<lambda>k. [JStr ''VINFO'', k]) (elems kn))"
proof -
  have "body \<noteq> JUndefined" "body \<noteq> JNull"
    using body_field_defined[OF assms(1)] by simp_all
  then obtain rco where rco: "body_field body ''returnCommandOnly'' = Inr rco"
    using body_field_total by blast
  have arr: "isArray kn \<Longrightarrow> truthy kn" by (cases kn) auto
  show ?thesis
  proof (cases "first_invalid vk (elems kn)")
    case None
    then have all: "\<forall>k\<in>set (elems kn). vk k" by (simp add: first_invalid_None)
    show ?thesis using None all assms(1) rco arr
      by (auto simp: validateVinfoMultiRequest_def buildVinfoMultiCommand_def)
  next
    case (Some k)
    then have k: "k \<in> set (elems kn) \<and> \<not> vk k" by (rule first_invalid_Some)
    then obtain t where t: "js_ToString n k = Inr t" using assms(2) by blast
    show ?thesis using Some assms(1) rco arr k t
      by (auto simp: validateVinfoMultiRequest_def buildVinfoMultiCommand_def)
  qed
qed

lemma validateVinfoMultiRequest_returns_example:
  "body_field (JObj [(''keyNames'', JArr [JStr ''k1'', JStr []])]) ''keyNames''
       = Inr (JArr [JStr ''k1'', JStr []])
   \<and> (\<exists>k\<in>set (elems (JArr [JStr ''k1'', JStr []])). \<not> nonempty_key k)
   \<and> validateVinfoMultiRequest sample_numberToString nonempty_key
         (JObj [(''keyNames'', JArr [JStr ''k1'', JStr []])]) = Inr (Invalid (InvalidKeyName []))
   \<and> body_field (JObj [(''keyNames'', JArr [JStr ''k1'', JStr ''k2''])]) ''keyNames''
       = Inr (JArr [JStr ''k1'', JStr ''k2''])
   \<and> validateVinfoMultiRequest sample_numberToString nonempty_key
        (JObj [(''keyNames'', JArr [JStr ''k1'', JStr ''k2''])])
       = Inr (Valid \<lparr>keyNames = [JStr ''k1'', JStr ''k2''], returnCommandOnly = False\<rparr>)
   \<and> buildVinfoMultiCommand \<lparr>keyNames = [JStr ''k1'', JStr ''k2''], returnCommandOnly = False\<rparr>
       = [[JStr ''VINFO'', JStr ''k1''], [JStr ''VINFO'', JStr ''k2'']]"
  by (simp add: validateVinfoMultiRequest_def buildVinfoMultiCommand_def nonempty_key_def)

lemma validateVinfoMultiRequest_missing_example:
  "validateVinfoMultiRequest n vk (JObj []) = Inr (Invalid KeyNamesRequired)
   \<and> validateVinfoMultiRequest n vk (JObj [(''keyNames'', JStr ''k1'')]) = Inr (Invalid KeyNamesRequired)
   \<and> validateVinfoMultiRequest n vk (JObj [(''keyNames'', JArr [])]) = Inr (Invalid KeyNamesRequired)"
  by (simp add: validateVinfoMultiRequest_def)

text \<open>
  An entry that fails key-name validation and has no string form makes validation throw while
  it builds the error message.
\<close>

lemma validateVinfoMultiRequest_message_throws_example:
  "\<not> nonempty_key (JObj [(''toString'', JNum 1)])
   \<and> validateVinfoMultiRequest sample_numberToString nonempty_key
        (JObj [(''keyNames'', JArr [JObj [(''toString'', JNum 1)]])]) = Inl TypeError"
  by (simp add: validateVinfoMultiRequest_def nonempty_key_def)

text \<open>
  Claim C8 fails on the request bodies null and undefined. There the key-names array is
  missing, and validation does not return invalid with an error: the first test reads
  \<^verbatim>\<open>body.keyNames\<close>, which throws a TypeError, so validation returns nothing at all. Validation
  returns, valid or invalid, exactly for the other bodies on which the first entry that
  fails key-name validation, if there is one, has a string form for the error message.
\<close>

theorem validateVinfoMultiRequest_throws_on_null:
  "validateVinfoMultiRequest n vk JNull = Inl TypeError
   \<and> validateVinfoMultiRequest n vk JUndefined = Inl TypeError
   \<and> ((\<exists>r. validateVinfoMultiRequest n vk body = Inr r) \<longleftrightarrow>
        body \<noteq> JNull \<and> body \<noteq> JUndefined
        \<and> (\<forall>kn k. body_field body ''keyNames'' = Inr kn \<and> isArray kn
                   \<and> first_invalid vk (elems kn) = Some k
               \<longrightarrow> (\<exists>t. js_ToString n k = Inr t)))"
proof -
  have a: "validateVinfoMultiRequest n vk JNull = Inl TypeError"
          "validateVinfoMultiRequest n vk JUndefined = Inl TypeError"
    by (simp_all add: validateVinfoMultiRequest_def)
  have arr: "isArray kn \<Longrightarrow> truthy kn" for kn by (cases kn) auto
  have b: "(\<exists>r. validateVinfoMultiRequest n vk body = Inr r) \<longleftrightarrow>
             (\<forall>kn k. body_field body ''keyNames'' = Inr kn \<and> isArray kn
                      \<and> first_invalid vk (elems kn) = Some k
                  \<longrightarrow> (\<exists>t. js_ToString n k = Inr t))"
    if nn: "body \<noteq> JNull" "body \<noteq> JUndefined"
  proof -
    obtain kn where f1: "body_field body ''keyNames'' = Inr kn"
      using nn body_field_total by blast
    obtain rco where f2: "body_field body ''returnCommandOnly'' = Inr rco"
      using nn body_field_total by blast
    show ?thesis
    proof (cases "isArray kn")
      case False
      then show ?thesis using f1 by (simp add: validateVinfoMultiRequest_def)
    next
      case True
      show ?thesis
      proof (cases "first_invalid vk (elems kn)")
        case None
        then show ?thesis using f1 f2 True
          by (simp add: validateVinfoMultiRequest_def)
      next
        case (Some k)
        then have ne: "elems kn \<noteq> []" by (cases "elems kn") auto
        show ?thesis
        proof (cases "js_ToString n k")
          case (Inl err)
          then show ?thesis using f1 True Some ne arr[OF True]
            by (auto simp: validateVinfoMultiRequest_def)
        next
          case (Inr t)
          then show ?thesis using f1 True Some ne arr[OF True]
            by (auto simp: validateVinfoMultiRequest_def)
        qed
      qed
    qed
  qed
  have c: "body \<noteq> JNull \<and> body \<noteq> JUndefined" if "validateVinfoMultiRequest n vk body = Inr r" for r
    using that a by auto
  show ?thesis using a b c by blast
qed

theorem validateVinfoMultiRequest_throws_on_null_witness:
  "validateVinfoMultiRequest sample_numberToString nonempty_key JNull = Inl TypeError
   \<and> validateVinfoMultiRequest sample_numberToString nonempty_key JUndefined = Inl TypeError
   \<and> (\<exists>r. validateVinfoMultiRequest sample_numberToString nonempty_key (JObj []) = Inr r)"
  using validateVinfoMultiRequest_throws_on_null [of sample_numberToString nonempty_key "JObj []"]
  by simp

section \<open>Properties of the sort state\<close>

text \<open>
  Claim C5. For the sortable columns element and score, starting from a state with no active
  sort, one click gives that column ascending, a second click that column descending, and a
  third click no active sort (column none); and a click on a column other than the current
  sort column makes it the sort column, ascending.
\<close>

theorem handleSort_three_state_cycle:
  "(column \<in> {Col_element, Col_score} \<and> sortColumn s = Col_none \<longrightarrow>
      sortColumn (handleSort column s) = column
    \<and> sortDirection (handleSort column s) = Asc
    \<and> sortColumn (handleSort column (handleSort column s)) = column
    \<and> sortDirection (handleSort column (handleSort column s)) = Desc
    \<and> sortColumn (handleSort column (handleSort column (handleSort column s))) = Col_none)
   \<and> (column \<noteq> sortColumn s \<longrightarrow>
      sortColumn (handleSort column s) = column \<and> sortDirection (handleSort column s) = Asc)"
  by (auto simp: handleSort_def)

theorem handleSort_three_state_cycle_witness:
  "Col_score \<in> {Col_element, Col_score} \<and> sortColumn initial_state = Col_none
   \<and> Col_score \<noteq> sortColumn initial_state
   \<and> sortColumn (handleSort Col_score initial_state) = Col_score
   \<and> sortDirection (handleSort Col_score initial_state) = Asc
   \<and> sortDirection (handleSort Col_score (handleSort Col_score initial_state)) = Desc
   \<and> sortColumn (handleSort Col_score (handleSort Col_score (handleSort Col_score initial_state)))
       = Col_none"
  using handleSort_three_state_cycle [of Col_score initial_state]
  by (simp add: initial_state_def)

section \<open>Properties of the attribute batch loop\<close>

lemma set_fold_set_add: "set (fold (\<lambda>key cols. set_add cols key) keys cols) = set cols \<union> set keys"
  by (induction keys arbitrary: cols) (auto simp: set_add_def)

lemma distinct_fold_set_add:
  "distinct cols \<Longrightarrow> distinct (fold (\<lambda>key cols. set_add cols key) keys cols)"
  by (induction keys arbitrary: cols) (auto simp: set_add_def)

text \<open>
  One step of the loop, accumulator by accumulator. The raw payload and the parsed value
  become own properties, except when the element is named \<^verbatim>\<open>__proto__\<close> and the assignment runs
  the setter of \<^verbatim>\<open>Object.prototype\<close>.
\<close>

lemma process_element_raw:
  "newCache (process_element parse attrs e i acc) =
     (if e = ''__proto__'' \<and> newCache acc e = None
         \<and> accessor_reachable (\<lambda>x. False) (newCache_prototype acc)
      then newCache acc
      else (newCache acc)(e \<mapsto> attribute_at attrs i))"
  by (auto simp: process_element_def store_raw_def store_parsed_def assign_property_def Let_def
           split: payload.splits option.splits prod.splits)

lemma process_element_raw_prototype:
  "newCache_prototype (process_element parse attrs e i acc) =
     (if e = ''__proto__'' \<and> newCache acc e = None
         \<and> accessor_reachable (\<lambda>x. False) (newCache_prototype acc)
         \<and> attribute_at attrs i = Null
      then NullPrototype
      else newCache_prototype acc)"
  by (auto simp: process_element_def store_raw_def store_parsed_def assign_property_def Let_def
           split: payload.splits option.splits prod.splits)

lemma process_element_parsed:
  "newParsedCache (process_element parse attrs e i acc) =
     (case parsed_at parse attrs i of
        None \<Rightarrow> newParsedCache acc
      | Some v \<Rightarrow>
          if e = ''__proto__'' \<and> newParsedCache acc e = None
             \<and> accessor_reachable (\<lambda>x. own_field x ''__proto__'' \<noteq> None) (newParsedCache_prototype acc)
          then newParsedCache acc
          else (newParsedCache acc)(e \<mapsto> v))"
  by (auto simp: process_element_def store_raw_def store_parsed_def assign_property_def
                 parsed_at_def Let_def
           split: payload.splits option.splits prod.splits)

lemma process_element_parsed_prototype:
  "newParsedCache_prototype (process_element parse attrs e i acc) =
     (case parsed_at parse attrs i of
        None \<Rightarrow> newParsedCache_prototype acc
      | Some v \<Rightarrow>
          if e = ''__proto__'' \<and> newParsedCache acc e = None
             \<and> accessor_reachable (\<lambda>x. own_field x ''__proto__'' \<noteq> None) (newParsedCache_prototype acc)
          then (case jsval_as_prototype v of None \<Rightarrow> newParsedCache_prototype acc | Some pr \<Rightarrow> pr)
          else newParsedCache_prototype acc)"
  by (auto simp: process_element_def store_raw_def store_parsed_def assign_property_def
                 parsed_at_def Let_def
           split: payload.splits option.splits prod.splits)

lemma process_element_cols:
  "set (allAttributeColumns (process_element parse attrs e i acc)) =
     set (allAttributeColumns acc) \<union> keys_at parse attrs i"
  by (auto simp: process_element_def store_raw_def store_parsed_def parsed_at_def keys_at_def
                 Let_def set_fold_set_add
           split: payload.splits option.splits prod.splits)

lemma process_element_distinct:
  "distinct (allAttributeColumns acc) \<Longrightarrow>
   distinct (allAttributeColumns (process_element parse attrs e i acc))"
  by (auto simp: process_element_def store_raw_def store_parsed_def Let_def distinct_fold_set_add
           split: payload.splits option.splits prod.splits)

text \<open>
  One step of the loop on a payload that does not parse, for an element of any name but
  \<^verbatim>\<open>__proto__\<close>: the raw payload is stored, and the parsed cache and the column names are as
  before. This holds at every position of every element list.
\<close>

lemma process_element_parse_failure:
  "attribute_at attrs i = Payload t \<Longrightarrow> parse t = None \<Longrightarrow> e \<noteq> ''__proto__'' \<Longrightarrow>
   process_element parse attrs e i acc = acc\<lparr>newCache := (newCache acc)(e \<mapsto> Payload t)\<rparr>"
  by (simp add: process_element_def store_raw_def assign_property_def Let_def)

text \<open>The same step for the element \<^verbatim>\<open>__proto__\<close> on a new object: nothing is stored.\<close>

lemma process_element_parse_failure_proto:
  "attribute_at attrs i = Payload t \<Longrightarrow> parse t = None \<Longrightarrow>
   newCache acc ''__proto__'' = None \<Longrightarrow> newCache_prototype acc = ObjectPrototype \<Longrightarrow>
   process_element parse attrs ''__proto__'' i acc = acc"
  by (simp add: process_element_def store_raw_def assign_property_def Let_def)

lemma forEach_raw_notin:
  "e \<notin> set es \<Longrightarrow> newCache (forEach_element parse attrs i es acc) e = newCache acc e"
proof (induction es arbitrary: i acc)
  case Nil
  then show ?case by simp
next
  case (Cons x es)
  have "newCache (process_element parse attrs x i acc) e = newCache acc e"
    using Cons.prems by (simp add: process_element_raw)
  then show ?case using Cons by simp
qed

lemma forEach_raw_in:
  "j < length es \<Longrightarrow> \<forall>k. j < k \<and> k < length es \<longrightarrow> es ! k \<noteq> es ! j \<Longrightarrow>
   es ! j \<noteq> ''__proto__'' \<Longrightarrow>
   newCache (forEach_element parse attrs i es acc) (es ! j) = Some (attribute_at attrs (i + j))"
proof (induction es arbitrary: i j acc)
  case Nil
  then show ?case by simp
next
  case (Cons x es)
  show ?case
  proof (cases j)
    case 0
    have "x \<notin> set es"
    proof
      assume "x \<in> set es"
      then obtain k where "k < length es" "es ! k = x" by (auto simp: in_set_conv_nth)
      then show False using Cons.prems(2)[rule_format, of "Suc k"] 0 by simp
    qed
    then have "newCache (forEach_element parse attrs (Suc i) es (process_element parse attrs x i acc)) x
                 = newCache (process_element parse attrs x i acc) x"
      by (rule forEach_raw_notin)
    moreover have "x \<noteq> ''__proto__''" using Cons.prems(3) 0 by simp
    ultimately show ?thesis using 0 by (simp add: process_element_raw)
  next
    case (Suc j')
    have "\<forall>k. j' < k \<and> k < length es \<longrightarrow> es ! k \<noteq> es ! j'"
    proof (intro allI impI)
      fix k assume "j' < k \<and> k < length es"
      then show "es ! k \<noteq> es ! j'" using Cons.prems(2)[rule_format, of "Suc k"] Suc by simp
    qed
    moreover have "j' < length es" using Cons.prems(1) Suc by simp
    moreover have "es ! j' \<noteq> ''__proto__''" using Cons.prems(3) Suc by simp
    ultimately show ?thesis
      using Cons.IH[of j' "Suc i" "process_element parse attrs x i acc"] Suc by simp
  qed
qed

text \<open>
  The element \<^verbatim>\<open>__proto__\<close> of a batch, on a new object without an own property of that name:
  whatever its payload, the loop leaves the object without one.
\<close>

lemma forEach_raw_proto:
  "distinct es \<Longrightarrow> newCache acc ''__proto__'' = None \<Longrightarrow>
   newCache_prototype acc = ObjectPrototype \<Longrightarrow>
   newCache (forEach_element parse attrs i es acc) ''__proto__'' = None"
proof (induction es arbitrary: i acc)
  case Nil
  then show ?case by simp
next
  case (Cons x es)
  show ?case
  proof (cases "x = ''__proto__''")
    case True
    then have "''__proto__'' \<notin> set es" using Cons.prems(1) by auto
    then have "newCache (forEach_element parse attrs (Suc i) es (process_element parse attrs x i acc))
                 ''__proto__'' = newCache (process_element parse attrs x i acc) ''__proto__''"
      by (rule forEach_raw_notin)
    then show ?thesis using True Cons.prems(2,3) by (simp add: process_element_raw)
  next
    case False
    have "newCache (process_element parse attrs x i acc) ''__proto__'' = None"
         "newCache_prototype (process_element parse attrs x i acc) = ObjectPrototype"
      using False Cons.prems(2,3)
      by (simp_all add: process_element_raw process_element_raw_prototype)
    then show ?thesis using Cons.IH[of "process_element parse attrs x i acc" "Suc i"] Cons.prems(1)
      by simp
  qed
qed

lemma forEach_parsed_none:
  "\<forall>k<length es. es ! k = e \<longrightarrow> parsed_at parse attrs (i + k) = None \<Longrightarrow>
   newParsedCache (forEach_element parse attrs i es acc) e = newParsedCache acc e"
proof (induction es arbitrary: i acc)
  case Nil
  then show ?case by simp
next
  case (Cons x es)
  have a: "newParsedCache (process_element parse attrs x i acc) e = newParsedCache acc e"
  proof (cases "x = e")
    case True
    then have "parsed_at parse attrs i = None" using Cons.prems[rule_format, of 0] by simp
    then show ?thesis by (simp add: process_element_parsed)
  next
    case False
    then show ?thesis by (auto simp: process_element_parsed split: option.splits)
  qed
  have "\<forall>k<length es. es ! k = e \<longrightarrow> parsed_at parse attrs (Suc i + k) = None"
    using Cons.prems by (metis add_Suc_shift length_Cons not_less_eq nth_Cons_Suc)
  then show ?case using Cons.IH[of "Suc i" "process_element parse attrs x i acc"] a by simp
qed

lemma forEach_parsed_notin:
  "e \<notin> set es \<Longrightarrow> newParsedCache (forEach_element parse attrs i es acc) e = newParsedCache acc e"
  by (rule forEach_parsed_none) auto

lemma forEach_parsed_distinct:
  "distinct es \<Longrightarrow> j < length es \<Longrightarrow> es ! j \<noteq> ''__proto__'' \<Longrightarrow>
   newParsedCache (forEach_element parse attrs i es acc) (es ! j) =
     (case parsed_at parse attrs (i + j) of
        None \<Rightarrow> newParsedCache acc (es ! j)
      | Some v \<Rightarrow> Some v)"
proof (induction es arbitrary: i j acc)
  case Nil
  then show ?case by simp
next
  case (Cons x es)
  let ?acc = "process_element parse attrs x i acc"
  show ?case
  proof (cases j)
    case 0
    have "x \<notin> set es" using Cons.prems(1) by simp
    then have "newParsedCache (forEach_element parse attrs (Suc i) es ?acc) x = newParsedCache ?acc x"
      by (rule forEach_parsed_notin)
    moreover have "x \<noteq> ''__proto__''" using Cons.prems(3) 0 by simp
    ultimately show ?thesis using 0 by (auto simp: process_element_parsed split: option.splits)
  next
    case (Suc j')
    have len: "j' < length es" using Cons.prems(2) Suc by simp
    have d: "distinct es" using Cons.prems(1) by simp
    have ne: "es ! j' \<noteq> x" using Cons.prems(1) len by auto
    have np: "es ! j' \<noteq> ''__proto__''" using Cons.prems(3) Suc by simp
    have "newParsedCache (forEach_element parse attrs (Suc i) es ?acc) (es ! j') =
            (case parsed_at parse attrs (Suc i + j') of
               None \<Rightarrow> newParsedCache ?acc (es ! j')
             | Some v \<Rightarrow> Some v)"
      using Cons.IH[OF d len np] .
    moreover have "newParsedCache ?acc (es ! j') = newParsedCache acc (es ! j')"
      using ne by (auto simp: process_element_parsed split: option.splits)
    ultimately show ?thesis using Suc by (auto split: option.splits)
  qed
qed

text \<open>
  The element \<^verbatim>\<open>__proto__\<close> of a batch never becomes an own property of the new parsed cache:
  its parsed value, when it has one, takes the place of the prototype or is dropped.
\<close>

lemma forEach_parsed_proto:
  "distinct es \<Longrightarrow> newParsedCache acc ''__proto__'' = None \<Longrightarrow>
   newParsedCache_prototype acc = ObjectPrototype \<Longrightarrow>
   newParsedCache (forEach_element parse attrs i es acc) ''__proto__'' = None"
proof (induction es arbitrary: i acc)
  case Nil
  then show ?case by simp
next
  case (Cons x es)
  let ?acc = "process_element parse attrs x i acc"
  show ?case
  proof (cases "x = ''__proto__''")
    case True
    then have "''__proto__'' \<notin> set es" using Cons.prems(1) by auto
    then have "newParsedCache (forEach_element parse attrs (Suc i) es ?acc) ''__proto__''
                 = newParsedCache ?acc ''__proto__''"
      by (rule forEach_parsed_notin)
    then show ?thesis using True Cons.prems(2,3)
      by (simp add: process_element_parsed split: option.splits)
  next
    case False
    have "newParsedCache ?acc ''__proto__'' = None"
         "newParsedCache_prototype ?acc = ObjectPrototype"
      using False Cons.prems(2,3)
      by (simp_all add: process_element_parsed process_element_parsed_prototype
                   split: option.splits)
    then show ?thesis using Cons.IH[of ?acc "Suc i"] Cons.prems(1) by simp
  qed
qed

lemma forEach_parsed_dom:
  "''__proto__'' \<notin> set es \<Longrightarrow>
   dom (newParsedCache (forEach_element parse attrs i es acc)) =
     dom (newParsedCache acc) \<union> {es ! k | k. k < length es \<and> parsed_at parse attrs (i + k) \<noteq> None}"
proof (induction es arbitrary: i acc)
  case Nil
  then show ?case by simp
next
  case (Cons x es)
  let ?acc = "process_element parse attrs x i acc"
  have xp: "x \<noteq> ''__proto__''" and rest: "''__proto__'' \<notin> set es" using Cons.prems by auto
  have d: "dom (newParsedCache ?acc) =
             dom (newParsedCache acc) \<union> (if parsed_at parse attrs i \<noteq> None then {x} else {})"
    using xp by (auto simp: process_element_parsed split: option.splits)
  have split: "{(x # es) ! k | k. k < length (x # es) \<and> parsed_at parse attrs (i + k) \<noteq> None} =
        (if parsed_at parse attrs i \<noteq> None then {x} else {}) \<union>
        {es ! k | k. k < length es \<and> parsed_at parse attrs (Suc i + k) \<noteq> None}"
    (is "?L = ?R")
  proof
    show "?L \<subseteq> ?R"
    proof
      fix e assume "e \<in> ?L"
      then obtain k where k: "e = (x # es) ! k" "k < length (x # es)" "parsed_at parse attrs (i + k) \<noteq> None"
        by blast
      show "e \<in> ?R"
      proof (cases k)
        case 0
        then show ?thesis using k by simp
      next
        case (Suc k')
        then have "e = es ! k'" "k' < length es" "parsed_at parse attrs (Suc i + k') \<noteq> None"
          using k by simp_all
        then show ?thesis by blast
      qed
    qed
    show "?R \<subseteq> ?L"
    proof
      fix e assume "e \<in> ?R"
      then consider "parsed_at parse attrs i \<noteq> None \<and> e = x"
        | k where "e = es ! k" "k < length es" "parsed_at parse attrs (Suc i + k) \<noteq> None"
        by (auto split: if_splits)
      then show "e \<in> ?L"
      proof cases
        case 1
        then have "e = (x # es) ! 0 \<and> 0 < length (x # es) \<and> parsed_at parse attrs (i + 0) \<noteq> None"
          by simp
        then show ?thesis by blast
      next
        case 2
        then have "e = (x # es) ! Suc k \<and> Suc k < length (x # es) \<and> parsed_at parse attrs (i + Suc k) \<noteq> None"
          by simp
        then show ?thesis by blast
      qed
    qed
  qed
  have "dom (newParsedCache (forEach_element parse attrs (Suc i) es ?acc)) =
     dom (newParsedCache ?acc) \<union> {es ! k | k. k < length es \<and> parsed_at parse attrs (Suc i + k) \<noteq> None}"
    using rest by (rule Cons.IH)
  then show ?case using d split by (simp add: Un_assoc)
qed

lemma forEach_cols:
  "set (allAttributeColumns (forEach_element parse attrs i es acc)) =
     set (allAttributeColumns acc) \<union> (\<Union>k<length es. keys_at parse attrs (i + k))"
proof (induction es arbitrary: i acc)
  case Nil
  then show ?case by simp
next
  case (Cons x es)
  let ?acc = "process_element parse attrs x i acc"
  have c': "set (allAttributeColumns ?acc) = set (allAttributeColumns acc) \<union> keys_at parse attrs i"
    by (rule process_element_cols)
  have "(\<Union>k<Suc (length es). keys_at parse attrs (i + k)) =
          keys_at parse attrs i \<union> (\<Union>k<length es. keys_at parse attrs (Suc i + k))"
    (is "?L = ?R")
  proof
    show "?L \<subseteq> ?R"
    proof
      fix a assume "a \<in> ?L"
      then obtain k where k: "k < Suc (length es)" "a \<in> keys_at parse attrs (i + k)" by blast
      show "a \<in> ?R"
      proof (cases k)
        case 0
        then show ?thesis using k by simp
      next
        case (Suc k')
        then have "k' < length es" "a \<in> keys_at parse attrs (Suc i + k')" using k by simp_all
        then show ?thesis by blast
      qed
    qed
    show "?R \<subseteq> ?L"
    proof
      fix a assume "a \<in> ?R"
      then consider "a \<in> keys_at parse attrs (i + 0)"
        | k where "k < length es" "a \<in> keys_at parse attrs (i + Suc k)" by auto
      then show "a \<in> ?L"
      proof cases
        case 1
        have "0 < Suc (length es)" by simp
        with 1 show ?thesis by blast
      next
        case 2
        then have "Suc k < Suc (length es)" by simp
        with 2 show ?thesis by blast
      qed
    qed
  qed
  then show ?case using Cons.IH[of "Suc i" ?acc] c' by (simp add: Un_assoc)
qed

lemma forEach_cols_distinct:
  "distinct (allAttributeColumns acc) \<Longrightarrow>
   distinct (allAttributeColumns (forEach_element parse attrs i es acc))"
proof (induction es arbitrary: i acc)
  case Nil
  then show ?case by simp
next
  case (Cons x es)
  have "distinct (allAttributeColumns (process_element parse attrs x i acc))"
    using process_element_distinct[OF Cons.prems] .
  then show ?case using Cons.IH[of "process_element parse attrs x i acc" "Suc i"] by simp
qed

section \<open>Properties of the result view\<close>










lemma sort_by_score_descending_example:
  "filteredAndSortedResults ascii_trim ascii_toLowerCase ordinal_compare
     [(''a'', 0.9), (''b'', 0.2), (''c'', 0.5)] [] Col_score Desc
     = [(''a'', 0.9), (''c'', 0.5), (''b'', 0.2)]"
  by (simp add: filteredAndSortedResults_def array_sort_def compare_rows_def ascii_trim_def)

lemma filter_text_example:
  "filteredAndSortedResults ascii_trim ascii_toLowerCase ordinal_compare
     [(''e1'', 0.9), (''e2'', 0.5)] ''E1'' Col_none Asc = [(''e1'', 0.9)]"
  by (simp add: filteredAndSortedResults_def sublist_code ascii_toLowerCase_def ascii_trim_def)


section \<open>Properties of column visibility and filtered field values\<close>

lemma filteredFields_no_filter: "no_searchFilter p \<Longrightarrow> filteredFields (searchFilter p) = []"
  by (auto simp: no_searchFilter_def filteredFields_def)

text \<open>
  What the inner loop has written when it completes: for every field but \<^verbatim>\<open>__proto__\<close> the
  display string of the value read, and nothing else.
\<close>

lemma field_values_apply:
  assumes "field_values rt pa fs m0 = Inr m"
  shows "f \<in> set fs \<Longrightarrow> f \<noteq> ''__proto__'' \<Longrightarrow>
           \<exists>v t. get_field rt pa f = Inr v \<and> display_string rt v = Inr t \<and> m f = Some t"
    and "f \<notin> set fs \<or> f = ''__proto__'' \<Longrightarrow> m f = m0 f"
proof -
  have "(f \<in> set fs \<and> f \<noteq> ''__proto__'' \<longrightarrow>
           (\<exists>v t. get_field rt pa f = Inr v \<and> display_string rt v = Inr t \<and> m f = Some t))
      \<and> (f \<notin> set fs \<or> f = ''__proto__'' \<longrightarrow> m f = m0 f)"
    using assms
  proof (induction fs arbitrary: m0)
    case Nil
    then show ?case by simp
  next
    case (Cons x fs)
    obtain v where v: "get_field rt pa x = Inr v"
      using Cons.prems by (cases "get_field rt pa x") auto
    obtain t where t: "display_string rt v = Inr t"
      using Cons.prems v by (cases "display_string rt v") auto
    let ?m1 = "if x = ''__proto__'' then m0 else m0(x \<mapsto> t)"
    have rest: "field_values rt pa fs ?m1 = Inr m" using Cons.prems v t by simp
    note ih = Cons.IH[OF rest]
    show ?case
    proof (cases "f = x")
      case True
      show ?thesis
      proof (cases "f \<in> set fs")
        case True
        then show ?thesis using ih by auto
      next
        case False
        then have "m f = ?m1 f" using ih by simp
        then show ?thesis using True v t by auto
      qed
    next
      case False
      then show ?thesis using ih by auto
    qed
  qed
  then show "f \<in> set fs \<Longrightarrow> f \<noteq> ''__proto__'' \<Longrightarrow>
           \<exists>v t. get_field rt pa f = Inr v \<and> display_string rt v = Inr t \<and> m f = Some t"
    and "f \<notin> set fs \<or> f = ''__proto__'' \<Longrightarrow> m f = m0 f"
    by blast+
qed

text \<open>
  What the loop over the rows has written when it completes, for every element but
  \<^verbatim>\<open>__proto__\<close>: the field values of the element when it is the element of a row and reads a
  truthy value from the parsed cache, and nothing otherwise.
\<close>

lemma filtered_values_loop_apply:
  assumes "filtered_values_loop rt fs pc pp rows acc = Inr res" "e \<noteq> ''__proto__''"
  shows "fst res e =
           (if e \<in> fst ` set rows then
              (case parsed_cache_read rt pc pp e of
                 Inl err \<Rightarrow> None
               | Inr pa \<Rightarrow>
                   if truthy_value pa
                   then (case field_values rt pa fs Map.empty of
                           Inl err \<Rightarrow> None
                         | Inr m \<Rightarrow> Some m)
                   else fst acc e)
            else fst acc e)"
  using assms(1)
proof (induction rows arbitrary: acc)
  case Nil
  then show ?case by simp
next
  case (Cons row rows)
  obtain pa where pa: "parsed_cache_read rt pc pp (fst row) = Inr pa"
    using Cons.prems by (cases "parsed_cache_read rt pc pp (fst row)") (auto simp: Let_def)
  show ?case
  proof (cases "truthy_value pa")
    case False
    then have "filtered_values_loop rt fs pc pp rows acc = Inr res"
      using Cons.prems pa by (simp add: Let_def)
    then have ih: "fst res e =
           (if e \<in> fst ` set rows then
              (case parsed_cache_read rt pc pp e of
                 Inl err \<Rightarrow> None
               | Inr pa \<Rightarrow>
                   if truthy_value pa
                   then (case field_values rt pa fs Map.empty of
                           Inl err \<Rightarrow> None
                         | Inr m \<Rightarrow> Some m)
                   else fst acc e)
            else fst acc e)"
      by (rule Cons.IH)
    show ?thesis
    proof (cases "fst row = e")
      case same: True
      then show ?thesis using ih False pa by (auto split: sum.splits)
    next
      case other: False
      then have mem: "e \<in> fst ` set (row # rows) \<longleftrightarrow> e \<in> fst ` set rows" by auto
      show ?thesis using ih mem by simp
    qed
  next
    case True
    obtain m where m: "field_values rt pa fs Map.empty = Inr m"
      using Cons.prems True pa by (cases "field_values rt pa fs Map.empty") (auto simp: Let_def)
    define acc1 where
      "acc1 = assign_property (\<lambda>x. x ''__proto__'' \<noteq> None) (\<lambda>x. Some (ValuePrototype x))
                (fst row) m acc"
    have rest: "filtered_values_loop rt fs pc pp rows acc1 = Inr res"
      using Cons.prems True m pa by (simp add: Let_def acc1_def)
    have acc: "fst acc1 e = (if fst row = e then Some m else fst acc e)"
      using assms(2) by (cases acc) (auto simp: assign_property_def acc1_def)
    note ih = Cons.IH[OF rest]
    show ?thesis
    proof (cases "fst row = e")
      case same: True
      then have "fst res e = Some m"
        using ih acc True m pa by (auto split: sum.splits)
      then show ?thesis using same True m pa by simp
    next
      case other: False
      then have mem: "e \<in> fst ` set (row # rows) \<longleftrightarrow> e \<in> fst ` set rows" by auto
      have "fst acc1 e = fst acc e" using acc other by simp
      then show ?thesis using ih mem by (auto split: sum.splits)
    qed
  qed
qed

text \<open>
  The loop completes exactly when no read of the parsed cache throws and the inner loop
  throws for no row it has to fill.
\<close>

lemma filtered_values_loop_completes:
  "(\<exists>res. filtered_values_loop rt fs pc pp rows acc = Inr res) \<longleftrightarrow>
   (\<forall>row\<in>set rows.
      \<exists>pa. parsed_cache_read rt pc pp (fst row) = Inr pa
         \<and> (truthy_value pa \<longrightarrow> (\<exists>m. field_values rt pa fs Map.empty = Inr m)))"
proof (induction rows arbitrary: acc)
  case Nil
  then show ?case by simp
next
  case (Cons row rows)
  show ?case
  proof (cases "parsed_cache_read rt pc pp (fst row)")
    case (Inl err)
    then show ?thesis by (simp add: Let_def)
  next
    case (Inr pa)
    show ?thesis
    proof (cases "truthy_value pa")
      case False
      then show ?thesis using Inr Cons.IH[of acc] by (simp add: Let_def)
    next
      case True
      show ?thesis
      proof (cases "field_values rt pa fs Map.empty")
        case (Inl err)
        then show ?thesis using True Inr by (simp add: Let_def)
      next
        case m: (Inr m)
        show ?thesis
          using True Inr m
            Cons.IH[of "assign_property (\<lambda>x. x ''__proto__'' \<noteq> None) (\<lambda>x. Some (ValuePrototype x))
                          (fst row) m acc"]
          by (simp add: Let_def)
      qed
    qed
  qed
qed

lemma display_string_cases:
  "display_string rt v =
     (if v = Json JUndefined \<or> v = Json JNull then Inr [] else toString rt v)"
  by (cases "toString rt v") (auto simp: display_string_def)

lemma filtered_fields_example:
  \<open>filteredFields (Some ''.color == ""'') = [''color'']\<close>
  by (simp add: filteredFields_def new_Set_def set_add_def is_ident_start_def is_ident_char_def)

lemma filtered_fields_red_example:
  \<open>filteredFields (Some ''.color == "red"'') = [''color'']\<close>
  by (simp add: filteredFields_def new_Set_def set_add_def is_ident_start_def is_ident_char_def)

text \<open>
  With attributes shown, filtered-only mode off and no filter expression, the column \<^verbatim>\<open>color\<close>,
  which the user has hidden and whose persisted visibility is false, comes out of the
  column-visibility effect visible: the effect does not consult the visibility preference.
\<close>

lemma column_visibility_ignores_preference:
  "showAttributes unfiltered_inputs \<and> \<not> showOnlyFilteredAttributes unfiltered_inputs
   \<and> no_searchFilter unfiltered_inputs
   \<and> availableColumns color_hidden_state ! 2 = \<lparr>name = ''color'', visible = False, ctype = Attribute\<rparr>
   \<and> getColumnVisibility unfiltered_inputs ''color'' True = False
   \<and> availableColumns (column_visibility_effect unfiltered_inputs color_hidden_state) ! 2
       = \<lparr>name = ''color'', visible = True, ctype = Attribute\<rparr>"
  by (simp add: unfiltered_inputs_def color_hidden_state_def initial_state_def
        column_visibility_effect_def no_searchFilter_def color_hidden_def)

text \<open>
  What the two effects do in general. When attributes are shown and filtered-only mode is
  disabled, the column-visibility effect makes every attribute column visible; when
  attributes are not shown, or filtered-only mode is enabled and there is no filter
  expression, it hides every attribute column. Either way the persisted visibility is not
  consulted, the names, types and order of the columns stay, and the system columns are
  unchanged. When filtered-only mode is disabled or no filter expression is present, the
  filtered-values effect computes no display values: it leaves the state as it is.
\<close>

lemma column_visibility_effect_mode:
  "(showAttributes p \<and> \<not> showOnlyFilteredAttributes p \<longrightarrow>
      (\<forall>col\<in>set (availableColumns (column_visibility_effect p s)).
          ctype col = Attribute \<longrightarrow> visible col))
   \<and> (\<not> showAttributes p \<or> (showOnlyFilteredAttributes p \<and> no_searchFilter p) \<longrightarrow>
      (\<forall>col\<in>set (availableColumns (column_visibility_effect p s)).
          ctype col = Attribute \<longrightarrow> \<not> visible col))
   \<and> map name (availableColumns (column_visibility_effect p s)) = map name (availableColumns s)
   \<and> map ctype (availableColumns (column_visibility_effect p s)) = map ctype (availableColumns s)
   \<and> filter (\<lambda>col. ctype col = System) (availableColumns (column_visibility_effect p s))
       = filter (\<lambda>col. ctype col = System) (availableColumns s)
   \<and> (\<not> showOnlyFilteredAttributes p \<or> no_searchFilter p \<longrightarrow>
        filtered_values_effect rt p rendered s = Inr s)"
proof -
  have sys: "filter (\<lambda>col. ctype col = System) (map f cols) = filter (\<lambda>col. ctype col = System) cols"
    if "\<And>c. ctype (f c) = ctype c" "\<And>c. ctype c = System \<Longrightarrow> f c = c" for f and cols :: "ColumnConfig list"
    using that by (induction cols) auto
  have a: "filter (\<lambda>col. ctype col = System) (availableColumns (column_visibility_effect p s))
       = filter (\<lambda>col. ctype col = System) (availableColumns s)"
    by (auto simp: column_visibility_effect_def Let_def intro!: sys)
  have b: "\<not> showOnlyFilteredAttributes p \<or> no_searchFilter p \<longrightarrow>
        filtered_values_effect rt p rendered s = Inr s"
    by (auto simp: filtered_values_effect_def filteredFields_no_filter)
  have c: "map name (availableColumns (column_visibility_effect p s)) = map name (availableColumns s)"
    by (auto simp: column_visibility_effect_def Let_def)
  have d: "map ctype (availableColumns (column_visibility_effect p s)) = map ctype (availableColumns s)"
    by (auto simp: column_visibility_effect_def Let_def)
  have e: "showAttributes p \<and> \<not> showOnlyFilteredAttributes p \<longrightarrow>
      (\<forall>col\<in>set (availableColumns (column_visibility_effect p s)).
          ctype col = Attribute \<longrightarrow> visible col)"
    by (auto simp: column_visibility_effect_def Let_def)
  have f: "\<not> showAttributes p \<or> (showOnlyFilteredAttributes p \<and> no_searchFilter p) \<longrightarrow>
      (\<forall>col\<in>set (availableColumns (column_visibility_effect p s)).
          ctype col = Attribute \<longrightarrow> \<not> visible col)"
    by (auto simp: column_visibility_effect_def Let_def)
  show ?thesis using a b c d e f by blast
qed

text \<open>
  The sibling paths do consult the preference: the columns that a completed fetch creates
  take their visibility from it.
\<close>

lemma fetch_columns_follow_preference:
  "\<not> isCancelled cl \<Longrightarrow>
   \<forall>col\<in>set (availableColumns (fetchAndProcessAttributes parse p cl (Some attrs) s)).
      ctype col = Attribute \<longrightarrow> visible col = getColumnVisibility p (name col) True"
  by (auto simp: fetchAndProcessAttributes_def Let_def)

text \<open>
  Claim C9 as stated fails. In filtered-only mode with the referenced field \<^verbatim>\<open>color\<close>, the row
  \<^verbatim>\<open>e1\<close> whose parsed attributes are \<^verbatim>\<open>{"color": ""}\<close> and the row \<^verbatim>\<open>e2\<close> whose parsed
  attributes are \<^verbatim>\<open>{"color": null}\<close> both get the empty display string although the field is
  present in their parsed attributes: the display string is not empty exactly when the field
  is absent.
\<close>

theorem filtered_values_empty_for_present_field:
  \<open>showAttributes filtered_inputs \<and> showOnlyFilteredAttributes filtered_inputs
   \<and> filteredFields (searchFilter filtered_inputs) = [''color'']
   \<and> results filtered_inputs = [(''e1'', 0.9), (''e2'', 0.5)]
   \<and> parsedAttributeCache empty_color_state ''e1'' = Some (JObj [(''color'', JStr [])])
   \<and> parsedAttributeCache empty_color_state ''e2'' = Some (JObj [(''color'', JNull)])
   \<and> own_field (JObj [(''color'', JStr [])]) ''color'' = Some (JStr [])
   \<and> own_field (JObj [(''color'', JNull)]) ''color'' = Some JNull
   \<and> (\<exists>s' m1 m2.
         filtered_values_effect sample_runtime filtered_inputs empty_color_state empty_color_state
           = Inr s'
       \<and> filteredFieldValues s' ''e1'' = Some m1 \<and> m1 ''color'' = Some []
       \<and> filteredFieldValues s' ''e2'' = Some m2 \<and> m2 ''color'' = Some [])\<close>
  by (simp add: filtered_inputs_def empty_color_state_def initial_state_def
        filtered_values_effect_def filtered_fields_example Let_def parsed_cache_read_def
        assign_property_def display_string_def sample_runtime_def)

text \<open>
  Claim C9, amended. Let attributes be shown and filtered-only mode be active with a non-empty
  set of referenced fields, and let no property read and no \<^verbatim>\<open>toString()\<close> call of the
  computation throw. Then the computation completes, and for every row and every referenced
  field, neither of them named \<^verbatim>\<open>__proto__\<close>: if the row's element has truthy parsed attributes
  in the cache, the display string is the \<^verbatim>\<open>toString()\<close> of the value when the field is an
  own property of the parsed attributes with a value other than null (which is empty for an
  empty string or an empty array), and the empty string when that value is null or when the
  parsed attributes have no such property, of their own or inherited; if the element has
  falsy parsed attributes, or has none and names nothing truthy that the cache inherits, no
  display values are computed for it.
\<close>

theorem filtered_values_effect_display:
  assumes "showAttributes p" "showOnlyFilteredAttributes p" "filteredFields (searchFilter p) \<noteq> []"
      and "\<forall>r\<in>set (results p).
             \<exists>pa. parsed_cache_read rt (parsedAttributeCache rendered)
                     (parsedAttributeCachePrototype rendered) (fst r) = Inr pa
                \<and> (truthy_value pa \<longrightarrow>
                     (\<exists>m. field_values rt pa (filteredFields (searchFilter p)) Map.empty = Inr m))"
      and "row \<in> set (results p)" "field \<in> set (filteredFields (searchFilter p))"
      and "fst row \<noteq> ''__proto__''" "field \<noteq> ''__proto__''"
  shows "\<exists>s'. filtered_values_effect rt p rendered s = Inr s'
          \<and> (case parsedAttributeCache rendered (fst row) of
                Some pa \<Rightarrow>
                  if truthy pa then
                    (\<exists>m. filteredFieldValues s' (fst row) = Some m
                       \<and> (case own_field pa field of
                            Some v \<Rightarrow>
                              if v = JNull \<or> v = JUndefined then m field = Some []
                              else (\<exists>t. json_toString rt v = Inr t \<and> m field = Some t)
                          | None \<Rightarrow>
                              builtin_member rt (Json pa) field = Inr (Json JUndefined)
                                \<longrightarrow> m field = Some []))
                  else filteredFieldValues s' (fst row) = None
              | None \<Rightarrow>
                  (\<forall>v. parsed_cache_read rt (parsedAttributeCache rendered)
                         (parsedAttributeCachePrototype rendered) (fst row) = Inr v
                       \<and> \<not> truthy_value v
                     \<longrightarrow> filteredFieldValues s' (fst row) = None))"
proof -
  let ?fs = "filteredFields (searchFilter p)"
  let ?pc = "parsedAttributeCache rendered"
  let ?pp = "parsedAttributeCachePrototype rendered"
  let ?read = "parsed_cache_read rt ?pc ?pp (fst row)"
  obtain res where res: "filtered_values_loop rt ?fs ?pc ?pp (results p) (Map.empty, ObjectPrototype) = Inr res"
    using assms(4) filtered_values_loop_completes[of rt ?fs ?pc ?pp "results p" "(Map.empty, ObjectPrototype)"]
    by blast
  let ?s' = "s\<lparr>filteredFieldValues := fst res, filteredFieldValuesPrototype := snd res\<rparr>"
  have eff: "filtered_values_effect rt p rendered s = Inr ?s'"
    using assms(1,2,3) res by (cases res) (simp add: filtered_values_effect_def)
  obtain rd where rd: "?read = Inr rd"
              and rdm: "truthy_value rd \<longrightarrow> (\<exists>m. field_values rt rd ?fs Map.empty = Inr m)"
    using assms(4)[rule_format, OF assms(5)] by blast
  have entry: "filteredFieldValues ?s' (fst row) =
                 (if truthy_value rd
                  then (case field_values rt rd ?fs Map.empty of Inl err \<Rightarrow> None | Inr m \<Rightarrow> Some m)
                  else None)"
  proof -
    have "fst row \<in> fst ` set (results p)" using assms(5) by (rule imageI)
    then show ?thesis using filtered_values_loop_apply[OF res assms(7)] rd by simp
  qed
  have body: "(case ?pc (fst row) of
                Some pa \<Rightarrow>
                  if truthy pa then
                    (\<exists>m. filteredFieldValues ?s' (fst row) = Some m
                       \<and> (case own_field pa field of
                            Some v \<Rightarrow>
                              if v = JNull \<or> v = JUndefined then m field = Some []
                              else (\<exists>t. json_toString rt v = Inr t \<and> m field = Some t)
                          | None \<Rightarrow>
                              builtin_member rt (Json pa) field = Inr (Json JUndefined)
                                \<longrightarrow> m field = Some []))
                  else filteredFieldValues ?s' (fst row) = None
              | None \<Rightarrow>
                  (\<forall>v. ?read = Inr v \<and> \<not> truthy_value v
                     \<longrightarrow> filteredFieldValues ?s' (fst row) = None))"
  proof (cases "?pc (fst row)")
    case None
    then show ?thesis using entry rd by simp
  next
    case (Some pa)
    then have read: "rd = Json pa" using rd by (simp add: parsed_cache_read_def)
    show ?thesis
    proof (cases "truthy pa")
      case False
      then show ?thesis using Some read entry by simp
    next
      case True
      then obtain m where m: "field_values rt (Json pa) ?fs Map.empty = Inr m"
        using rdm read by auto
      have fm: "filteredFieldValues ?s' (fst row) = Some m"
        using entry read True m by simp
      obtain v t where vt: "get_field rt (Json pa) field = Inr v" "display_string rt v = Inr t"
                           "m field = Some t"
        using field_values_apply(1)[OF m assms(6,8)] by blast
      have nn: "pa \<noteq> JUndefined" "pa \<noteq> JNull" using True by auto
      have gf: "get_field rt (Json pa) field =
                  (case own_field pa field of
                     Some w \<Rightarrow> Inr (Json w)
                   | None \<Rightarrow> builtin_member rt (Json pa) field)"
        using nn by (cases pa) (auto split: option.splits)
      have inner: "(case own_field pa field of
                      Some v \<Rightarrow>
                        if v = JNull \<or> v = JUndefined then m field = Some []
                        else (\<exists>t. json_toString rt v = Inr t \<and> m field = Some t)
                    | None \<Rightarrow>
                        builtin_member rt (Json pa) field = Inr (Json JUndefined)
                          \<longrightarrow> m field = Some [])"
      proof (cases "own_field pa field")
        case None
        then have "builtin_member rt (Json pa) field = Inr v" using gf vt(1) by simp
        then show ?thesis using None vt(2,3) by (auto simp: display_string_cases)
      next
        case (Some w)
        then have "v = Json w" using gf vt(1) by simp
        then show ?thesis using Some vt(2,3) by (auto simp: display_string_cases)
      qed
      show ?thesis using Some True fm inner by auto
    qed
  qed
  show ?thesis using eff body by blast
qed

theorem filtered_values_effect_display_witness:
  \<open>showAttributes filtered_inputs \<and> showOnlyFilteredAttributes filtered_inputs
   \<and> filteredFields (searchFilter filtered_inputs) \<noteq> []
   \<and> (''e1'', 0.9) \<in> set (results filtered_inputs)
   \<and> ''color'' \<in> set (filteredFields (searchFilter filtered_inputs))
   \<and> parsedAttributeCache red_color_state ''e1'' = Some (JObj [(''color'', JStr ''red'')])
   \<and> (\<exists>s' m. filtered_values_effect sample_runtime filtered_inputs red_color_state red_color_state
                = Inr s'
          \<and> filteredFieldValues s' ''e1'' = Some m
          \<and> m ''color'' = Some ''red'')\<close>
proof -
  have h: \<open>showAttributes filtered_inputs\<close> \<open>showOnlyFilteredAttributes filtered_inputs\<close>
          \<open>filteredFields (searchFilter filtered_inputs) \<noteq> []\<close>
          \<open>\<forall>r\<in>set (results filtered_inputs).
             \<exists>pa. parsed_cache_read sample_runtime (parsedAttributeCache red_color_state)
                     (parsedAttributeCachePrototype red_color_state) (fst r) = Inr pa
                \<and> (truthy_value pa \<longrightarrow>
                     (\<exists>m. field_values sample_runtime pa
                             (filteredFields (searchFilter filtered_inputs)) Map.empty = Inr m))\<close>
          \<open>(''e1'', 0.9) \<in> set (results filtered_inputs)\<close>
          \<open>''color'' \<in> set (filteredFields (searchFilter filtered_inputs))\<close>
          \<open>fst (''e1'', 0.9::real) \<noteq> ''__proto__''\<close> \<open>''color'' \<noteq> ''__proto__''\<close>
    by (simp_all add: filtered_inputs_def red_color_state_def initial_state_def
          filtered_fields_example parsed_cache_read_def display_string_def sample_runtime_def
          sample_builtin_member_def)
  have pc: \<open>parsedAttributeCache red_color_state ''e1'' = Some (JObj [(''color'', JStr ''red'')])\<close>
    by (simp add: red_color_state_def)
  show ?thesis
    using filtered_values_effect_display
            [where p = filtered_inputs and rendered = red_color_state and rt = sample_runtime
               and s = red_color_state and row = "(''e1'', 0.9)" and field = "''color''", OF h]
          h(1,2,3,5,6) pc
    by auto
qed

text \<open>
  Outside these conditions the effect does what the property reads of JavaScript make it do.
  A referenced field that names a member inherited from \<^verbatim>\<open>Object.prototype\<close> gets that member's
  string although the parsed attributes have no such field; a row whose element names such a
  member gets display values although it has no parsed attributes; and a value with a
  property \<^verbatim>\<open>toString\<close> makes the effect throw.
\<close>

lemma filtered_fields_constructor_example:
  \<open>filteredFields (Some ''.constructor == 1'') = [''constructor'']\<close>
  by (simp add: filteredFields_def new_Set_def set_add_def is_ident_start_def is_ident_char_def)

lemma filtered_values_inherited_field_example:
  \<open>own_field (JObj [(''color'', JStr ''red'')]) ''constructor'' = None
   \<and> (\<exists>s' m. filtered_values_effect sample_runtime constructor_filter_inputs
                 red_color_state red_color_state = Inr s'
          \<and> filteredFieldValues s' ''e1'' = Some m
          \<and> m ''constructor'' = Some ''function Object() { [native code] }'')\<close>
  by (simp add: constructor_filter_inputs_def filtered_inputs_def red_color_state_def
        initial_state_def filtered_values_effect_def filtered_fields_constructor_example Let_def
        parsed_cache_read_def assign_property_def display_string_def sample_runtime_def
        sample_builtin_member_def sample_nativeToString_def)

lemma filtered_values_inherited_row_example:
  \<open>parsedAttributeCache red_color_state ''constructor'' = None
   \<and> (\<exists>s' m. filtered_values_effect sample_runtime constructor_row_inputs
                 red_color_state red_color_state = Inr s'
          \<and> filteredFieldValues s' ''constructor'' = Some m
          \<and> m ''color'' = Some [])\<close>
  by (simp add: constructor_row_inputs_def filtered_inputs_def red_color_state_def
        initial_state_def filtered_values_effect_def filtered_fields_example Let_def
        parsed_cache_read_def assign_property_def display_string_def sample_runtime_def
        sample_builtin_member_def sample_nativeToString_def)

lemma filtered_values_effect_throws_example:
  \<open>filtered_values_effect sample_runtime filtered_inputs throwing_color_state throwing_color_state
     = Inl TypeError\<close>
  by (simp add: filtered_inputs_def throwing_color_state_def
        initial_state_def filtered_values_effect_def filtered_fields_example Let_def
        parsed_cache_read_def display_string_def sample_runtime_def)

section \<open>Properties of a completed attribute fetch\<close>

lemma fetch_not_cancelled:
  "\<not> isCancelled cl \<Longrightarrow>
   fetchAndProcessAttributes parse p cl (Some attrs) s =
     (let b = forEach_element parse attrs 0 (closure_elements cl)
                \<lparr>newCache = closure_attributeCache cl, newCache_prototype = ObjectPrototype,
                 newParsedCache = Map.empty, newParsedCache_prototype = ObjectPrototype,
                 allAttributeColumns = []\<rparr>
      in s\<lparr>attributeCache := newCache b,
           attributeCachePrototype := newCache_prototype b,
           parsedAttributeCache := newParsedCache b,
           parsedAttributeCachePrototype := newParsedCache_prototype b,
           availableColumns :=
             filter (\<lambda>col. ctype col = System) (availableColumns s) @
             map (\<lambda>colName. \<lparr>name = colName, visible = getColumnVisibility p colName True,
                              ctype = Attribute\<rparr>)
               (allAttributeColumns b),
           isLoadingAttributes := False\<rparr>)"
  by (simp add: fetchAndProcessAttributes_def)

lemma fetch_cancelled: "isCancelled cl \<Longrightarrow> fetchAndProcessAttributes parse p cl attributes s = s"
  by (simp add: fetchAndProcessAttributes_def)

lemma fetch_raw_cache:
  assumes "\<not> isCancelled cl"
  shows "e \<notin> set (closure_elements cl) \<Longrightarrow>
           attributeCache (fetchAndProcessAttributes parse p cl (Some attrs) s) e = closure_attributeCache cl e"
    and "j < length (closure_elements cl) \<Longrightarrow>
         \<forall>k. j < k \<and> k < length (closure_elements cl) \<longrightarrow> closure_elements cl ! k \<noteq> closure_elements cl ! j \<Longrightarrow>
         closure_elements cl ! j \<noteq> ''__proto__'' \<Longrightarrow>
           attributeCache (fetchAndProcessAttributes parse p cl (Some attrs) s) (closure_elements cl ! j)
             = Some (attribute_at attrs j)"
  using assms forEach_raw_notin[of e "closure_elements cl" parse attrs 0]
        forEach_raw_in[of j "closure_elements cl" parse attrs 0]
  by (simp_all add: fetch_not_cancelled Let_def)

lemma fetch_parsed_cache:
  assumes "\<not> isCancelled cl"
  shows "''__proto__'' \<notin> set (closure_elements cl) \<Longrightarrow>
         dom (parsedAttributeCache (fetchAndProcessAttributes parse p cl (Some attrs) s)) =
           {closure_elements cl ! k | k. k < length (closure_elements cl) \<and> parsed_at parse attrs k \<noteq> None}"
    and "distinct (closure_elements cl) \<Longrightarrow> j < length (closure_elements cl) \<Longrightarrow>
         closure_elements cl ! j \<noteq> ''__proto__'' \<Longrightarrow>
           parsedAttributeCache (fetchAndProcessAttributes parse p cl (Some attrs) s) (closure_elements cl ! j)
             = parsed_at parse attrs j"
    and "e \<notin> set (closure_elements cl) \<Longrightarrow>
           parsedAttributeCache (fetchAndProcessAttributes parse p cl (Some attrs) s) e = None"
  using assms
        forEach_parsed_dom[of "closure_elements cl" parse attrs 0]
        forEach_parsed_distinct[of "closure_elements cl" j parse attrs 0]
        forEach_parsed_notin[of e "closure_elements cl" parse attrs 0]
  by (simp_all add: fetch_not_cancelled Let_def split: option.splits)

text \<open>
  The element \<^verbatim>\<open>__proto__\<close> of a batch gets no entry in either cache, whatever its payload,
  when the cache that the closure holds has none for it.
\<close>

lemma fetch_proto_element:
  assumes "\<not> isCancelled cl" "distinct (closure_elements cl)"
      and "closure_attributeCache cl ''__proto__'' = None"
  shows "attributeCache (fetchAndProcessAttributes parse p cl (Some attrs) s) ''__proto__'' = None"
    and "parsedAttributeCache (fetchAndProcessAttributes parse p cl (Some attrs) s) ''__proto__'' = None"
  using assms
        forEach_raw_proto[of "closure_elements cl" _ parse attrs 0]
        forEach_parsed_proto[of "closure_elements cl" _ parse attrs 0]
  by (simp_all add: fetch_not_cancelled Let_def)

lemma fetch_columns:
  assumes "\<not> isCancelled cl"
  shows "filter (\<lambda>col. ctype col = System) (availableColumns (fetchAndProcessAttributes parse p cl (Some attrs) s))
           = filter (\<lambda>col. ctype col = System) (availableColumns s)"
    and "name ` {col \<in> set (availableColumns (fetchAndProcessAttributes parse p cl (Some attrs) s)). ctype col = Attribute}
           = (\<Union>k<length (closure_elements cl). keys_at parse attrs k)"
proof -
  let ?B = "forEach_element parse attrs 0 (closure_elements cl)
              \<lparr>newCache = closure_attributeCache cl, newCache_prototype = ObjectPrototype,
               newParsedCache = Map.empty, newParsedCache_prototype = ObjectPrototype,
               allAttributeColumns = []\<rparr>"
  let ?mk = "\<lambda>colName. \<lparr>name = colName, visible = getColumnVisibility p colName True, ctype = Attribute\<rparr>"
  have cols: "availableColumns (fetchAndProcessAttributes parse p cl (Some attrs) s) =
          filter (\<lambda>col. ctype col = System) (availableColumns s) @ map ?mk (allAttributeColumns ?B)"
    using assms by (simp add: fetch_not_cancelled Let_def)
  have nosys: "filter (\<lambda>col. ctype col = System) (map ?mk ks) = []" for ks
    by (induction ks) auto
  show "filter (\<lambda>col. ctype col = System) (availableColumns (fetchAndProcessAttributes parse p cl (Some attrs) s))
           = filter (\<lambda>col. ctype col = System) (availableColumns s)"
    by (simp add: cols nosys)
  have "{col \<in> set (availableColumns (fetchAndProcessAttributes parse p cl (Some attrs) s)). ctype col = Attribute}
          = ?mk ` set (allAttributeColumns ?B)"
    by (auto simp: cols)
  then have "name ` {col \<in> set (availableColumns (fetchAndProcessAttributes parse p cl (Some attrs) s)). ctype col = Attribute}
          = set (allAttributeColumns ?B)"
    by (simp add: image_image)
  also have "\<dots> = (\<Union>k<length (closure_elements cl). keys_at parse attrs k)"
    using forEach_cols[of parse attrs 0 "closure_elements cl"]
    by simp
  finally show "name ` {col \<in> set (availableColumns (fetchAndProcessAttributes parse p cl (Some attrs) s)). ctype col = Attribute}
           = (\<Union>k<length (closure_elements cl). keys_at parse attrs k)" .
qed

text \<open>
  What holds of a parse failure for every element list without repetitions and without an
  element named \<^verbatim>\<open>__proto__\<close>, in a fetch that is not cancelled: an element whose payload \<open>t\<close>
  fails to parse has \<open>t\<close> stored in the raw cache and has no entry in the parsed cache; and
  every element of the batch, whatever happens to the others, has its payload stored in the
  raw cache, its parsed value (if its payload is a non-empty string that parses) stored in
  the parsed cache, and its keys among the attribute columns. A parse failure does not stop
  the loop.
\<close>

lemma fetch_parse_failure_isolated:
  assumes "\<not> isCancelled cl" "distinct (closure_elements cl)"
      and "''__proto__'' \<notin> set (closure_elements cl)"
      and "j < length (closure_elements cl)"
      and "attribute_at attrs j = Payload t" "parse t = None"
  shows "attributeCache (fetchAndProcessAttributes parse p cl (Some attrs) s) (closure_elements cl ! j)
           = Some (Payload t)
       \<and> parsedAttributeCache (fetchAndProcessAttributes parse p cl (Some attrs) s) (closure_elements cl ! j)
           = None
       \<and> (\<forall>k<length (closure_elements cl).
             attributeCache (fetchAndProcessAttributes parse p cl (Some attrs) s) (closure_elements cl ! k)
               = Some (attribute_at attrs k)
           \<and> parsedAttributeCache (fetchAndProcessAttributes parse p cl (Some attrs) s) (closure_elements cl ! k)
               = parsed_at parse attrs k)
       \<and> name ` {col \<in> set (availableColumns (fetchAndProcessAttributes parse p cl (Some attrs) s)).
                   ctype col = Attribute}
           = (\<Union>k<length (closure_elements cl). keys_at parse attrs k)"
proof -
  have later: "\<forall>k'. k < k' \<and> k' < length (closure_elements cl) \<longrightarrow>
                 closure_elements cl ! k' \<noteq> closure_elements cl ! k"
    if "k < length (closure_elements cl)" for k
    using assms(2) that by (auto simp: nth_eq_iff_index_eq)
  have np: "closure_elements cl ! k \<noteq> ''__proto__''" if "k < length (closure_elements cl)" for k
    using assms(3) that by (metis nth_mem)
  have raw: "attributeCache (fetchAndProcessAttributes parse p cl (Some attrs) s) (closure_elements cl ! k)
               = Some (attribute_at attrs k)" if "k < length (closure_elements cl)" for k
    using fetch_raw_cache(2)[OF assms(1) that later[OF that] np[OF that]] .
  have parsed: "parsedAttributeCache (fetchAndProcessAttributes parse p cl (Some attrs) s) (closure_elements cl ! k)
               = parsed_at parse attrs k" if "k < length (closure_elements cl)" for k
    using fetch_parsed_cache(2)[OF assms(1,2) that np[OF that]] .
  have none: "parsed_at parse attrs j = None"
    using assms(5,6) by (simp add: parsed_at_def)
  show ?thesis
    using raw[OF assms(4)] parsed[OF assms(4)] none assms(5) raw parsed fetch_columns(2)[OF assms(1)]
    by simp
qed

lemma fetch_parse_failure_isolated_example:
  \<open>attributeCache (fetchAndProcessAttributes sample_parse fruits_e1 three_elements
        (Some three_payloads) initial_state) ''e2'' = Some (Payload ''{"color":'')
   \<and> parsedAttributeCache (fetchAndProcessAttributes sample_parse fruits_e1 three_elements
        (Some three_payloads) initial_state) ''e2'' = None
   \<and> parsedAttributeCache (fetchAndProcessAttributes sample_parse fruits_e1 three_elements
        (Some three_payloads) initial_state) ''e3'' = Some (JObj [(''size'', JNum 3)])\<close>
proof -
  have h: \<open>\<not> isCancelled three_elements\<close> \<open>distinct (closure_elements three_elements)\<close>
          \<open>''__proto__'' \<notin> set (closure_elements three_elements)\<close>
          \<open>1 < length (closure_elements three_elements)\<close>
          \<open>attribute_at three_payloads 1 = Payload ''{"color":''\<close>
          \<open>sample_parse ''{"color":'' = None\<close>
    by (simp_all add: three_elements_def three_payloads_def attribute_at_def sample_parse_def)
  have e3: \<open>closure_elements three_elements ! 2 = ''e3''\<close> \<open>closure_elements three_elements ! 1 = ''e2''\<close>
           \<open>2 < length (closure_elements three_elements)\<close>
           \<open>parsed_at sample_parse three_payloads 2 = Some (JObj [(''size'', JNum 3)])\<close>
    by (simp_all add: three_elements_def three_payloads_def parsed_at_def attribute_at_def sample_parse_def)
  show ?thesis
    using fetch_parse_failure_isolated [where cl = three_elements and attrs = three_payloads and j = 1
                and t = \<open>''{"color":''\<close> and parse = sample_parse
                and p = fruits_e1 and s = initial_state, OF h]
          h e3
    by (metis (no_types, lifting))
qed

text \<open>
  The single-element update stores the payload of an element of any name, \<^verbatim>\<open>__proto__\<close>
  included, in the raw cache, also when it does not parse.
\<close>

lemma dialog_stores_raw_payload:
  "editingAttributes s = Some element \<Longrightarrow> element \<noteq> [] \<Longrightarrow> t \<noteq> [] \<Longrightarrow>
   attributeCache (handleAttributesDialogClose parse (Some t) s) element = Some (Payload t)"
  by (auto simp: handleAttributesDialogClose_def Let_def split: option.splits)

text \<open>
  Claim C7 fails for an element named \<^verbatim>\<open>__proto__\<close>. In a fetch that is not cancelled, over an
  element list without repetitions, started from a cache that has no entry for that element:
  when the payload \<open>t\<close> of the element \<^verbatim>\<open>__proto__\<close> fails to parse, the raw cache has no entry
  for the element afterwards, so the raw payload is not kept. The other elements of the batch
  are processed as the claim says.
\<close>

theorem fetch_loses_raw_payload_of_proto:
  assumes "\<not> isCancelled cl" "distinct (closure_elements cl)"
      and "closure_attributeCache cl ''__proto__'' = None"
      and "j < length (closure_elements cl)" "closure_elements cl ! j = ''__proto__''"
      and "attribute_at attrs j = Payload t" "parse t = None"
  shows "attributeCache (fetchAndProcessAttributes parse p cl (Some attrs) s) (closure_elements cl ! j)
           = None
       \<and> parsedAttributeCache (fetchAndProcessAttributes parse p cl (Some attrs) s) (closure_elements cl ! j)
           = None
       \<and> (\<forall>k<length (closure_elements cl). k \<noteq> j \<longrightarrow>
             attributeCache (fetchAndProcessAttributes parse p cl (Some attrs) s) (closure_elements cl ! k)
               = Some (attribute_at attrs k)
           \<and> parsedAttributeCache (fetchAndProcessAttributes parse p cl (Some attrs) s) (closure_elements cl ! k)
               = parsed_at parse attrs k)"
proof -
  have later: "\<forall>k'. k < k' \<and> k' < length (closure_elements cl) \<longrightarrow>
                 closure_elements cl ! k' \<noteq> closure_elements cl ! k"
    if "k < length (closure_elements cl)" for k
    using assms(2) that by (auto simp: nth_eq_iff_index_eq)
  have np: "closure_elements cl ! k \<noteq> ''__proto__''"
    if "k < length (closure_elements cl)" "k \<noteq> j" for k
    using assms(2,4,5) that by (metis nth_eq_iff_index_eq)
  have raw: "attributeCache (fetchAndProcessAttributes parse p cl (Some attrs) s) (closure_elements cl ! k)
               = Some (attribute_at attrs k)" if "k < length (closure_elements cl)" "k \<noteq> j" for k
    using fetch_raw_cache(2)[OF assms(1) that(1) later[OF that(1)] np[OF that]] .
  have parsed: "parsedAttributeCache (fetchAndProcessAttributes parse p cl (Some attrs) s) (closure_elements cl ! k)
               = parsed_at parse attrs k" if "k < length (closure_elements cl)" "k \<noteq> j" for k
    using fetch_parsed_cache(2)[OF assms(1,2) that(1) np[OF that]] .
  show ?thesis
    using fetch_proto_element[OF assms(1,2,3), of parse p attrs s] assms(5) raw parsed
    by simp
qed

theorem fetch_loses_raw_payload_of_proto_witness:
  \<open>\<not> isCancelled proto_elements \<and> distinct (closure_elements proto_elements)
   \<and> closure_attributeCache proto_elements ''__proto__'' = None
   \<and> closure_elements proto_elements ! 0 = ''__proto__''
   \<and> attribute_at proto_payloads 0 = Payload ''{"color":''
   \<and> sample_parse ''{"color":'' = None
   \<and> attributeCache (fetchAndProcessAttributes sample_parse fruits_e1 proto_elements
        (Some proto_payloads) initial_state) ''__proto__'' = None
   \<and> attributeCache (fetchAndProcessAttributes sample_parse fruits_e1 proto_elements
        (Some proto_payloads) initial_state) ''e2'' = Some (Payload ''{"size":3}'')
   \<and> attributeCache (handleAttributesDialogClose sample_parse (Some ''{"color":'') editing_proto)
        ''__proto__'' = Some (Payload ''{"color":'')\<close>
proof -
  have h: \<open>\<not> isCancelled proto_elements\<close> \<open>distinct (closure_elements proto_elements)\<close>
          \<open>closure_attributeCache proto_elements ''__proto__'' = None\<close>
          \<open>0 < length (closure_elements proto_elements)\<close>
          \<open>closure_elements proto_elements ! 0 = ''__proto__''\<close>
          \<open>attribute_at proto_payloads 0 = Payload ''{"color":''\<close>
          \<open>sample_parse ''{"color":'' = None\<close>
    by (simp_all add: proto_elements_def proto_payloads_def attribute_at_def sample_parse_def)
  have e2: \<open>closure_elements proto_elements ! 1 = ''e2''\<close>
           \<open>1 < length (closure_elements proto_elements)\<close>
           \<open>attribute_at proto_payloads 1 = Payload ''{"size":3}''\<close>
    by (simp_all add: proto_elements_def proto_payloads_def attribute_at_def)
  have d: \<open>attributeCache (handleAttributesDialogClose sample_parse (Some ''{"color":'') editing_proto)
        ''__proto__'' = Some (Payload ''{"color":'')\<close>
    by (rule dialog_stores_raw_payload) (simp_all add: editing_proto_def)
  note th = fetch_loses_raw_payload_of_proto [where cl = proto_elements and attrs = proto_payloads
                and j = 0 and t = \<open>''{"color":''\<close> and parse = sample_parse
                and p = fruits_e1 and s = initial_state, OF h]
  have a: \<open>attributeCache (fetchAndProcessAttributes sample_parse fruits_e1 proto_elements
        (Some proto_payloads) initial_state) ''__proto__'' = None\<close>
    using th h(5) by simp
  have \<open>attributeCache (fetchAndProcessAttributes sample_parse fruits_e1 proto_elements
        (Some proto_payloads) initial_state) (closure_elements proto_elements ! 1)
          = Some (attribute_at proto_payloads 1)\<close>
    using th e2(2) by simp
  then have b: \<open>attributeCache (fetchAndProcessAttributes sample_parse fruits_e1 proto_elements
        (Some proto_payloads) initial_state) ''e2'' = Some (Payload ''{"size":3}'')\<close>
    using e2(1,3) by simp
  show ?thesis using a b d h by blast
qed

text \<open>
  When the payload of the element \<^verbatim>\<open>__proto__\<close> parses to an object, that object becomes the
  prototype of the new parsed cache: the cache has no entry for the element, and reading the
  cache at the name of one of the object's fields yields that field.
\<close>

lemma fetch_proto_replaces_prototype_example:
  \<open>parsedAttributeCache (fetchAndProcessAttributes sample_parse fruits_e1 proto_elements
        (Some proto_parsed_payloads) initial_state) ''__proto__'' = None
   \<and> parsedAttributeCachePrototype (fetchAndProcessAttributes sample_parse fruits_e1 proto_elements
        (Some proto_parsed_payloads) initial_state)
       = ValuePrototype (JObj [(''color'', JStr ''red'')])
   \<and> parsed_cache_read sample_runtime
        (parsedAttributeCache (fetchAndProcessAttributes sample_parse fruits_e1 proto_elements
           (Some proto_parsed_payloads) initial_state))
        (parsedAttributeCachePrototype (fetchAndProcessAttributes sample_parse fruits_e1
           proto_elements (Some proto_parsed_payloads) initial_state))
        ''color''
       = Inr (Json (JStr ''red''))
   \<and> map name (availableColumns (fetchAndProcessAttributes sample_parse fruits_e1 proto_elements
        (Some proto_parsed_payloads) initial_state))
       = [''element'', ''score'', ''color'', ''size'']\<close>
  by (simp add: fetchAndProcessAttributes_def proto_elements_def proto_parsed_payloads_def
        process_element_def store_raw_def store_parsed_def assign_property_def attribute_at_def
        sample_parse_def set_add_def parsed_cache_read_def initial_state_def Let_def)

section \<open>Properties of the component over time\<close>

lemma column_visibility_effect_frame:
  "attributeCache (column_visibility_effect p s) = attributeCache s"
  "parsedAttributeCache (column_visibility_effect p s) = parsedAttributeCache s"
  "filteredFieldValues (column_visibility_effect p s) = filteredFieldValues s"
  "sortColumn (column_visibility_effect p s) = sortColumn s"
  "sortDirection (column_visibility_effect p s) = sortDirection s"
  "filterText (column_visibility_effect p s) = filterText s"
  "selectMode (column_visibility_effect p s) = selectMode s"
  "selectedElements (column_visibility_effect p s) = selectedElements s"
  by (simp_all add: column_visibility_effect_def)

lemma column_visibility_effect_names:
  "map name (availableColumns (column_visibility_effect p s)) = map name (availableColumns s)"
  by (auto simp: column_visibility_effect_def Let_def)

lemma column_visibility_effect_system_only:
  "\<forall>col\<in>set (availableColumns s). ctype col = System \<Longrightarrow>
   availableColumns (column_visibility_effect p s) = availableColumns s"
  by (auto simp: column_visibility_effect_def intro: map_idI)

text \<open>A run of the filtered-values effect writes \<^verbatim>\<open>filteredFieldValues\<close> and nothing else.\<close>

lemma filtered_values_effect_frame:
  assumes "filtered_values_effect rt p r s = Inr s'"
  shows "attributeCache s' = attributeCache s"
        "parsedAttributeCache s' = parsedAttributeCache s"
        "availableColumns s' = availableColumns s"
        "sortColumn s' = sortColumn s"
        "sortDirection s' = sortDirection s"
        "filterText s' = filterText s"
        "selectMode s' = selectMode s"
        "selectedElements s' = selectedElements s"
  using assms
  by (auto simp: filtered_values_effect_def split: if_splits sum.splits prod.splits)

lemma run_filtered_values_frame:
  "attributeCache (st (run_filtered_values rt p r c)) = attributeCache (st c)"
  "parsedAttributeCache (st (run_filtered_values rt p r c)) = parsedAttributeCache (st c)"
  "availableColumns (st (run_filtered_values rt p r c)) = availableColumns (st c)"
  "sortColumn (st (run_filtered_values rt p r c)) = sortColumn (st c)"
  "sortDirection (st (run_filtered_values rt p r c)) = sortDirection (st c)"
  "filterText (st (run_filtered_values rt p r c)) = filterText (st c)"
  "selectMode (st (run_filtered_values rt p r c)) = selectMode (st c)"
  "selectedElements (st (run_filtered_values rt p r c)) = selectedElements (st c)"
  "props (run_filtered_values rt p r c) = props c"
  "fetches (run_filtered_values rt p r c) = fetches c"
  "cleanup (run_filtered_values rt p r c) = cleanup c"
  by (auto simp: run_filtered_values_def filtered_values_effect_frame split: sum.splits)

lemma run_cleanup_frame:
  "st (run_cleanup c) = st c" "props (run_cleanup c) = props c"
  "length (fetches (run_cleanup c)) = length (fetches c)" "cleanup (run_cleanup c) = None"
  by (simp_all add: run_cleanup_def split: option.splits)

lemma run_cleanup_cancelled:
  "i < length (fetches c) \<Longrightarrow>
   isCancelled (fetches (run_cleanup c) ! i) = (isCancelled (fetches c ! i) \<or> cleanup c = Some i)"
  by (auto simp: run_cleanup_def nth_list_update split: option.splits)

lemma run_cleanup_settled:
  "i < length (fetches c) \<Longrightarrow> settled (fetches (run_cleanup c) ! i) = settled (fetches c ! i)"
  by (auto simp: run_cleanup_def nth_list_update split: option.splits)

lemma fetch_effect_frame:
  "props (fetch_effect p r c) = props c"
  "attributeCache (st (fetch_effect p r c)) = attributeCache (st c)"
  "parsedAttributeCache (st (fetch_effect p r c)) = parsedAttributeCache (st c)"
  "filteredFieldValues (st (fetch_effect p r c)) = filteredFieldValues (st c)"
  "availableColumns (st (fetch_effect p r c)) = availableColumns (st c)"
  "sortColumn (st (fetch_effect p r c)) = sortColumn (st c)"
  "sortDirection (st (fetch_effect p r c)) = sortDirection (st c)"
  "filterText (st (fetch_effect p r c)) = filterText (st c)"
  "selectMode (st (fetch_effect p r c)) = selectMode (st c)"
  "selectedElements (st (fetch_effect p r c)) = selectedElements (st c)"
  by (simp_all add: fetch_effect_def)

lemma fetch_effect_fetches:
  "i < length (fetches c) \<Longrightarrow> fetches (fetch_effect p r c) ! i = fetches c ! i"
  "length (fetches c) \<le> length (fetches (fetch_effect p r c))"
  by (simp_all add: fetch_effect_def nth_append)

lemma fetch_effect_superseded:
  "\<forall>i<length (fetches c). isCancelled (fetches c ! i) \<Longrightarrow> cleanup c = None \<Longrightarrow>
   closures_superseded (fetch_effect p r c)"
  by (auto simp: closures_superseded_def fetch_effect_def nth_append)

lemma effect_flush_fetches_cleanup:
  "fetches (effect_flush rt p key res sa so sf c) =
     (if sa \<or> res \<or> key then fetches (fetch_effect p (st c) (run_cleanup c)) else fetches c)"
  "cleanup (effect_flush rt p key res sa so sf c) =
     (if sa \<or> res \<or> key then cleanup (fetch_effect p (st c) (run_cleanup c)) else cleanup c)"
  by (auto simp: effect_flush_def Let_def run_filtered_values_frame fetch_effect_def
                 run_cleanup_def split: option.splits)

lemma commit_fetches_cleanup:
  "fetches (commit rt p key res sa so sf c) =
     (if sa \<or> res \<or> key then fetches (fetch_effect p (st c) (run_cleanup c)) else fetches c)"
  "cleanup (commit rt p key res sa so sf c) =
     (if sa \<or> res \<or> key then cleanup (fetch_effect p (st c) (run_cleanup c)) else cleanup c)"
  by (simp_all add: commit_def Let_def run_filtered_values_frame effect_flush_fetches_cleanup)

lemma commit_props: "props (commit rt p key res sa so sf c) = p"
  by (auto simp: commit_def effect_flush_def Let_def run_filtered_values_frame fetch_effect_def
                 run_cleanup_def split: option.splits)

lemma commit_length: "length (fetches c) \<le> length (fetches (commit rt p key res sa so sf c))"
  using fetch_effect_fetches(2)[of "run_cleanup c" p "st c"]
  by (simp add: commit_fetches_cleanup run_cleanup_frame)

lemma commit_cancelled:
  assumes "i < length (fetches c)" "isCancelled (fetches c ! i)"
  shows "isCancelled (fetches (commit rt p key res sa so sf c) ! i)"
  using assms fetch_effect_fetches(1)[of i "run_cleanup c" p "st c"]
  by (simp add: commit_fetches_cleanup run_cleanup_frame run_cleanup_cancelled)

lemma commit_superseded_cancels:
  assumes "closures_superseded c" "i < length (fetches c)" "sa \<or> res \<or> key"
  shows "isCancelled (fetches (commit rt p key res sa so sf c) ! i)"
  using assms fetch_effect_fetches(1)[of i "run_cleanup c" p "st c"]
  by (auto simp: commit_fetches_cleanup run_cleanup_frame run_cleanup_cancelled closures_superseded_def)

lemma commit_superseded:
  assumes "closures_superseded c"
  shows "closures_superseded (commit rt p key res sa so sf c)"
proof (cases "sa \<or> res \<or> key")
  case True
  have "\<forall>i<length (fetches (run_cleanup c)). isCancelled (fetches (run_cleanup c) ! i)"
    using assms by (simp add: run_cleanup_frame run_cleanup_cancelled closures_superseded_def)
  then have "closures_superseded (fetch_effect p (st c) (run_cleanup c))"
    by (rule fetch_effect_superseded) (simp add: run_cleanup_frame)
  then show ?thesis using True
    by (simp add: closures_superseded_def commit_fetches_cleanup)
next
  case False
  then show ?thesis using assms by (simp add: closures_superseded_def commit_fetches_cleanup)
qed

text \<open>
  The state after the effects of a render that saw a new \<^verbatim>\<open>keyName\<close>, and after the whole
  commit: the caches are empty, the columns are the two system columns, and the sort state,
  the filter text and the selection are at their defaults.
\<close>

lemma effect_flush_key_state:
  "attributeCache (st (effect_flush rt p True res sa so sf c)) = Map.empty"
  "parsedAttributeCache (st (effect_flush rt p True res sa so sf c)) = Map.empty"
  "availableColumns (st (effect_flush rt p True res sa so sf c)) =
     [\<lparr>name = ''element'', visible = getColumnVisibility p ''element'' True, ctype = System\<rparr>,
      \<lparr>name = ''score'', visible = getColumnVisibility p ''score'' True, ctype = System\<rparr>]"
  "sortColumn (st (effect_flush rt p True res sa so sf c)) = Col_none"
  "sortDirection (st (effect_flush rt p True res sa so sf c)) = Asc"
  "filterText (st (effect_flush rt p True res sa so sf c)) = []"
  "selectedElements (st (effect_flush rt p True res sa so sf c)) = {}"
  "\<not> selectMode (st (effect_flush rt p True res sa so sf c))"
  by (simp_all add: effect_flush_def Let_def run_filtered_values_frame column_visibility_effect_frame
        fetch_effect_frame run_cleanup_frame keyName_reset_effect_def selection_clear_effect_def
        column_visibility_effect_system_only)

lemma commit_key_state:
  "attributeCache (st (commit rt p True res sa so sf c)) = Map.empty"
  "parsedAttributeCache (st (commit rt p True res sa so sf c)) = Map.empty"
  "availableColumns (st (commit rt p True res sa so sf c)) =
     [\<lparr>name = ''element'', visible = getColumnVisibility p ''element'' True, ctype = System\<rparr>,
      \<lparr>name = ''score'', visible = getColumnVisibility p ''score'' True, ctype = System\<rparr>]"
  "sortColumn (st (commit rt p True res sa so sf c)) = Col_none"
  "sortDirection (st (commit rt p True res sa so sf c)) = Asc"
  "filterText (st (commit rt p True res sa so sf c)) = []"
  "selectedElements (st (commit rt p True res sa so sf c)) = {}"
  "\<not> selectMode (st (commit rt p True res sa so sf c))"
  by (simp_all add: commit_def Let_def run_filtered_values_frame effect_flush_key_state)

lemma step_length: "length (fetches c) \<le> length (fetches (step parse rt e c))"
  by (cases e) (simp_all add: commit_length Let_def run_filtered_values_frame)

lemma step_cancelled:
  assumes "i < length (fetches c)" "isCancelled (fetches c ! i)"
  shows "isCancelled (fetches (step parse rt e c) ! i)"
proof (cases e)
  case (Rerender p fresh)
  then show ?thesis using commit_cancelled[OF assms] by simp
next
  case (FetchResolved j a)
  then show ?thesis using assms
    by (auto simp: Let_def nth_list_update run_filtered_values_frame)
qed (insert assms, simp_all add: Let_def run_filtered_values_frame)

lemma run_cancelled:
  "i < length (fetches c) \<Longrightarrow> isCancelled (fetches c ! i) \<Longrightarrow>
   i < length (fetches (run parse rt es c)) \<and> isCancelled (fetches (run parse rt es c) ! i)"
proof (induction es arbitrary: c)
  case Nil
  then show ?case by simp
next
  case (Cons e es)
  have "i < length (fetches (step parse rt e c))"
    using Cons.prems(1) step_length[of c parse rt e] by simp
  moreover have "isCancelled (fetches (step parse rt e c) ! i)"
    using Cons.prems by (rule step_cancelled)
  ultimately show ?case using Cons.IH by simp
qed

lemma step_superseded:
  assumes "closures_superseded c"
  shows "closures_superseded (step parse rt e c)"
proof (cases e)
  case (Rerender p fresh)
  then show ?thesis using commit_superseded[OF assms] by simp
next
  case (FetchResolved j a)
  then show ?thesis using assms
    by (auto simp: closures_superseded_def Let_def nth_list_update run_filtered_values_frame)
qed (insert assms, simp_all add: closures_superseded_def Let_def run_filtered_values_frame)

lemma run_superseded:
  "closures_superseded c \<Longrightarrow> closures_superseded (run parse rt es c)"
  by (induction es arbitrary: c) (simp_all add: step_superseded)

lemma mount_superseded: "closures_superseded (mount rt p)"
  unfolding mount_def by (rule commit_superseded) (simp add: closures_superseded_def)

lemma resolve_cancelled:
  assumes "i < length (fetches c)" "isCancelled (fetches c ! i)"
  shows "st (step parse rt (FetchResolved i a) c) = st c"
  using assms by (simp add: Let_def fetch_cancelled)

lemma handleAttributesDialogClose_columns:
  "prefix (availableColumns s) (availableColumns (handleAttributesDialogClose parse u s))"
  by (auto simp: handleAttributesDialogClose_def Let_def split: option.splits)

lemma handleToggleColumn_names:
  "map name (availableColumns (handleToggleColumn cn v s)) = map name (availableColumns s)"
  by (auto simp: handleToggleColumn_def)

lemma handleSort_columns: "availableColumns (handleSort col s) = availableColumns s"
  by (simp add: handleSort_def)

lemma commit_names_same_key:
  "map name (availableColumns (st (commit rt p False res sa so sf c))) = map name (availableColumns (st c))"
  by (simp add: commit_def effect_flush_def Let_def run_filtered_values_frame
        column_visibility_effect_names fetch_effect_frame run_cleanup_frame)

lemma prefix_map_name:
  "prefix (xs :: ColumnConfig list) ys \<Longrightarrow> prefix (map name xs) (map name ys)"
  by (auto simp: prefix_def)

text \<open>The sample histories, state by state. None of them has an effect that throws.\<close>

lemma mount_fruits:
  "mount sample_runtime fruits_e1 =
     \<lparr>props = fruits_e1,
      st = initial_state\<lparr>isLoadingAttributes := True\<rparr>,
      fetches = [\<lparr>closure_elements = [''e1''], closure_attributeCache = Map.empty,
                  isCancelled = False, settled = False\<rparr>],
      cleanup = Some 0, effect_failed = False\<rparr>"
  by (simp add: mount_def commit_def effect_flush_def run_filtered_values_def Let_def
        run_cleanup_def fetch_effect_def fruits_e1_def
        keyName_reset_effect_def selection_clear_effect_def column_visibility_effect_def
        filtered_values_effect_def initial_state_def default_visibility_def no_searchFilter_def
        filteredFields_def)

lemma fruits_loaded_eval:
  \<open>fruits_loaded =
     \<lparr>props = fruits_e1,
      st = initial_state
             \<lparr>attributeCache := [''e1'' \<mapsto> Payload ''{"color":"red"}''],
              parsedAttributeCache := [''e1'' \<mapsto> JObj [(''color'', JStr ''red'')]],
              availableColumns :=
                [\<lparr>name = ''element'', visible = True, ctype = System\<rparr>,
                 \<lparr>name = ''score'', visible = True, ctype = System\<rparr>,
                 \<lparr>name = ''color'', visible = True, ctype = Attribute\<rparr>]\<rparr>,
      fetches = [\<lparr>closure_elements = [''e1''], closure_attributeCache = Map.empty,
                  isCancelled = False, settled = True\<rparr>],
      cleanup = Some 0, effect_failed = False\<rparr>\<close>
  unfolding fruits_loaded_def mount_fruits
  by (simp add: Let_def fetchAndProcessAttributes_def run_filtered_values_def
        process_element_def store_raw_def store_parsed_def assign_property_def
        attribute_at_def sample_parse_def set_add_def
        filtered_values_effect_def fruits_e1_def initial_state_def default_visibility_def
        filteredFields_def)

lemma fruits_next_results_eval:
  \<open>fruits_next_results =
     \<lparr>props = fruits_e2,
      st = initial_state
             \<lparr>attributeCache := [''e1'' \<mapsto> Payload ''{"color":"red"}''],
              parsedAttributeCache := [''e1'' \<mapsto> JObj [(''color'', JStr ''red'')]],
              availableColumns :=
                [\<lparr>name = ''element'', visible = True, ctype = System\<rparr>,
                 \<lparr>name = ''score'', visible = True, ctype = System\<rparr>,
                 \<lparr>name = ''color'', visible = True, ctype = Attribute\<rparr>],
              isLoadingAttributes := True\<rparr>,
      fetches = [\<lparr>closure_elements = [''e1''], closure_attributeCache = Map.empty,
                  isCancelled = True, settled = True\<rparr>,
                 \<lparr>closure_elements = [''e2''],
                  closure_attributeCache = [''e1'' \<mapsto> Payload ''{"color":"red"}''],
                  isCancelled = False, settled = False\<rparr>],
      cleanup = Some 1, effect_failed = False\<rparr>\<close>
  unfolding fruits_next_results_def fruits_loaded_eval
  by (simp add: commit_def effect_flush_def run_filtered_values_def Let_def run_cleanup_def
        fetch_effect_def fruits_e1_def fruits_e2_def filtered_values_effect_def
        initial_state_def filteredFields_def)

lemma animals_selected_eval:
  \<open>animals_selected =
     \<lparr>props = animals_e2,
      st = initial_state\<lparr>isLoadingAttributes := True\<rparr>,
      fetches = [\<lparr>closure_elements = [''e1''], closure_attributeCache = Map.empty,
                  isCancelled = True, settled = True\<rparr>,
                 \<lparr>closure_elements = [''e2''],
                  closure_attributeCache = [''e1'' \<mapsto> Payload ''{"color":"red"}''],
                  isCancelled = False, settled = False\<rparr>],
      cleanup = Some 1, effect_failed = False\<rparr>\<close>
  unfolding animals_selected_def fruits_loaded_eval
  by (simp add: commit_def effect_flush_def run_filtered_values_def Let_def run_cleanup_def
        fetch_effect_def fruits_e1_def animals_e2_def filtered_values_effect_def
        keyName_reset_effect_def selection_clear_effect_def
        initial_state_def filteredFields_def default_visibility_def)

lemma color_toggled_off_eval:
  \<open>color_toggled_off =
     \<lparr>props = fruits_e1,
      st = initial_state
             \<lparr>attributeCache := [''e1'' \<mapsto> Payload ''{"color":"red"}''],
              parsedAttributeCache := [''e1'' \<mapsto> JObj [(''color'', JStr ''red'')]],
              availableColumns :=
                [\<lparr>name = ''element'', visible = True, ctype = System\<rparr>,
                 \<lparr>name = ''score'', visible = True, ctype = System\<rparr>,
                 \<lparr>name = ''color'', visible = False, ctype = Attribute\<rparr>]\<rparr>,
      fetches = [\<lparr>closure_elements = [''e1''], closure_attributeCache = Map.empty,
                  isCancelled = False, settled = True\<rparr>],
      cleanup = Some 0, effect_failed = False\<rparr>\<close>
  unfolding color_toggled_off_def fruits_loaded_eval
  by (simp add: handleToggleColumn_def initial_state_def)

lemma mode_entered_eval:
  \<open>mode_entered = color_toggled_off\<lparr>props := fruits_mode_on\<rparr>\<close>
  unfolding mode_entered_def color_toggled_off_eval
  by (simp add: commit_def effect_flush_def run_filtered_values_def Let_def
        fruits_e1_def fruits_mode_on_def filtered_values_effect_def
        column_visibility_effect_def no_searchFilter_def
        initial_state_def filteredFields_def)

lemma mount_fruits_filtered:
  "mount sample_runtime fruits_filtered =
     \<lparr>props = fruits_filtered,
      st = initial_state\<lparr>isLoadingAttributes := True\<rparr>,
      fetches = [\<lparr>closure_elements = [''e1''], closure_attributeCache = Map.empty,
                  isCancelled = False, settled = False\<rparr>],
      cleanup = Some 0, effect_failed = False\<rparr>"
  by (simp add: mount_def commit_def effect_flush_def run_filtered_values_def Let_def
        run_cleanup_def fetch_effect_def fruits_filtered_def
        keyName_reset_effect_def selection_clear_effect_def column_visibility_effect_def
        filtered_values_effect_def initial_state_def default_visibility_def no_searchFilter_def
        filtered_fields_red_example parsed_cache_read_def sample_runtime_def
        sample_builtin_member_def)

lemma fruits_filtered_loaded_eval:
  \<open>fruits_filtered_loaded =
     \<lparr>props = fruits_filtered,
      st = initial_state
             \<lparr>attributeCache := [''e1'' \<mapsto> Payload ''{"color":"red"}''],
              parsedAttributeCache := [''e1'' \<mapsto> JObj [(''color'', JStr ''red'')]],
              availableColumns :=
                [\<lparr>name = ''element'', visible = True, ctype = System\<rparr>,
                 \<lparr>name = ''score'', visible = True, ctype = System\<rparr>,
                 \<lparr>name = ''color'', visible = True, ctype = Attribute\<rparr>],
              filteredFieldValues := [''e1'' \<mapsto> [''color'' \<mapsto> ''red'']]\<rparr>,
      fetches = [\<lparr>closure_elements = [''e1''], closure_attributeCache = Map.empty,
                  isCancelled = False, settled = True\<rparr>],
      cleanup = Some 0, effect_failed = False\<rparr>\<close>
  unfolding fruits_filtered_loaded_def mount_fruits_filtered
  by (simp add: Let_def fetchAndProcessAttributes_def run_filtered_values_def
        process_element_def store_raw_def store_parsed_def assign_property_def
        attribute_at_def sample_parse_def set_add_def
        filtered_values_effect_def fruits_filtered_def initial_state_def default_visibility_def
        filtered_fields_red_example parsed_cache_read_def display_string_def sample_runtime_def)

lemma animals_first_flush_eval:
  \<open>animals_first_flush =
     \<lparr>props = animals_filtered,
      st = initial_state
             \<lparr>isLoadingAttributes := True,
              filteredFieldValues := [''e1'' \<mapsto> [''color'' \<mapsto> ''red'']]\<rparr>,
      fetches = [\<lparr>closure_elements = [''e1''], closure_attributeCache = Map.empty,
                  isCancelled = True, settled = True\<rparr>,
                 \<lparr>closure_elements = [''e1''],
                  closure_attributeCache = [''e1'' \<mapsto> Payload ''{"color":"red"}''],
                  isCancelled = False, settled = False\<rparr>],
      cleanup = Some 1, effect_failed = False\<rparr>\<close>
  unfolding animals_first_flush_def fruits_filtered_loaded_eval
  by (simp add: effect_flush_def run_filtered_values_def Let_def run_cleanup_def
        fetch_effect_def fruits_filtered_def animals_filtered_def filtered_values_effect_def
        keyName_reset_effect_def selection_clear_effect_def
        initial_state_def default_visibility_def assign_property_def
        filtered_fields_red_example parsed_cache_read_def display_string_def sample_runtime_def)

lemma animals_settled_eval:
  \<open>animals_settled =
     animals_first_flush\<lparr>st := (st animals_first_flush)\<lparr>filteredFieldValues := Map.empty\<rparr>\<rparr>\<close>
proof -
  have "animals_settled =
          run_filtered_values sample_runtime animals_filtered (st animals_first_flush)
            animals_first_flush"
    by (simp add: animals_settled_def animals_first_flush_def commit_def Let_def
          fruits_filtered_loaded_eval animals_filtered_def fruits_filtered_def)
  then show ?thesis
    unfolding animals_first_flush_eval
    by (simp add: run_filtered_values_def filtered_values_effect_def animals_filtered_def
          fruits_filtered_def initial_state_def filtered_fields_red_example
          parsed_cache_read_def sample_runtime_def sample_builtin_member_def)
qed

lemma sample_histories_do_not_throw:
  \<open>\<not> effect_failed fruits_next_results
   \<and> \<not> effect_failed
        (step sample_parse sample_runtime (FetchResolved 1 (Some [Some ''{"size":3}'']))
           fruits_next_results)
   \<and> \<not> effect_failed animals_selected
   \<and> \<not> effect_failed
        (step sample_parse sample_runtime (FetchResolved 1 (Some [Some ''{"size":3}'']))
           animals_selected)
   \<and> \<not> effect_failed color_toggled_off
   \<and> \<not> effect_failed mode_entered
   \<and> \<not> effect_failed animals_first_flush
   \<and> \<not> effect_failed animals_settled\<close>
  unfolding animals_settled_eval mode_entered_eval
  unfolding animals_first_flush_eval color_toggled_off_eval animals_selected_eval
    fruits_next_results_eval
  by (simp add: Let_def run_filtered_values_def filtered_values_effect_def fruits_e2_def
        fruits_e1_def animals_e2_def filteredFields_def)

text \<open>
  Claim C2. Let \<open>c\<close> be any state the component can reach from its mount, \<open>i\<close> any fetch
  started so far, and let \<^verbatim>\<open>keyName\<close> change. Then whenever fetch \<open>i\<close> resolves afterwards, after
  any further events \<open>es\<close>, the state is left exactly as it was: nothing is merged into the raw
  cache, the parsed cache or the column list. In particular, when it resolves right after the
  reset, both caches are still empty and the columns are the two system columns.
\<close>

theorem stale_fetch_discarded:
  assumes "c = run parse n es0 (mount n p0)"
      and "i < length (fetches c)"
      and "keyName p \<noteq> keyName (props c)"
  shows "st (step parse n (FetchResolved i a) (run parse n es (step parse n (Rerender p fresh) c)))
           = st (run parse n es (step parse n (Rerender p fresh) c))
       \<and> attributeCache (st (step parse n (FetchResolved i a) (step parse n (Rerender p fresh) c)))
           = Map.empty
       \<and> parsedAttributeCache (st (step parse n (FetchResolved i a) (step parse n (Rerender p fresh) c)))
           = Map.empty
       \<and> map name (availableColumns (st (step parse n (FetchResolved i a) (step parse n (Rerender p fresh) c))))
           = [''element'', ''score'']"
proof -
  let ?c1 = "step parse n (Rerender p fresh) c"
  have sup: "closures_superseded c"
    using assms(1) mount_superseded run_superseded by simp
  have len1: "i < length (fetches ?c1)"
    using assms(2) step_length[of c parse n "Rerender p fresh"] by simp
  have can1: "isCancelled (fetches ?c1 ! i)"
    using commit_superseded_cancels[OF sup assms(2)] assms(3) by simp
  have later: "i < length (fetches (run parse n es ?c1)) \<and> isCancelled (fetches (run parse n es ?c1) ! i)"
    using run_cancelled[OF len1 can1] .
  have a: "st (step parse n (FetchResolved i a) (run parse n es ?c1)) = st (run parse n es ?c1)"
    using later resolve_cancelled by blast
  have b: "st (step parse n (FetchResolved i a) ?c1) = st ?c1"
    using len1 can1 by (rule resolve_cancelled)
  have c: "attributeCache (st ?c1) = Map.empty" "parsedAttributeCache (st ?c1) = Map.empty"
          "map name (availableColumns (st ?c1)) = [''element'', ''score'']"
    using assms(3) by (simp_all add: commit_key_state)
  show ?thesis using a b c by simp
qed


theorem stale_fetch_discarded_witness:
  \<open>mount sample_runtime fruits_e1
     = run sample_parse sample_runtime [] (mount sample_runtime fruits_e1)
   \<and> 0 < length (fetches (mount sample_runtime fruits_e1))
   \<and> keyName animals_e2 \<noteq> keyName (props (mount sample_runtime fruits_e1))
   \<and> attributeCache (st
         (step sample_parse sample_runtime (FetchResolved 0 (Some [Some ''{"color":"red"}'']))
            (step sample_parse sample_runtime (Rerender animals_e2 True)
               (mount sample_runtime fruits_e1)))) = Map.empty
   \<and> parsedAttributeCache (st
         (step sample_parse sample_runtime (FetchResolved 0 (Some [Some ''{"color":"red"}'']))
            (step sample_parse sample_runtime (Rerender animals_e2 True)
               (mount sample_runtime fruits_e1)))) = Map.empty\<close>
proof -
  have h0: "mount sample_runtime fruits_e1
     = run sample_parse sample_runtime [] (mount sample_runtime fruits_e1)"
    by simp
  have h: "0 < length (fetches (mount sample_runtime fruits_e1))"
          "keyName animals_e2 \<noteq> keyName (props (mount sample_runtime fruits_e1))"
    unfolding mount_fruits by (simp_all add: animals_e2_def fruits_e1_def)
  show ?thesis
    using stale_fetch_discarded [where c = "mount sample_runtime fruits_e1" and parse = sample_parse
                and n = sample_runtime and ?es0.0 = "[]" and ?p0.0 = fruits_e1
                and i = 0 and p = animals_e2 and es = "[]" and fresh = True
                and a = \<open>Some [Some ''{"color":"red"}'']\<close>, OF h0 h]
          h0 h
    by blast
qed


text \<open>
  What the two effects that run on a change of \<^verbatim>\<open>keyName\<close> do by themselves, and what holds
  after the whole commit of a render with a changed \<^verbatim>\<open>keyName\<close>: the raw cache and the parsed
  cache are empty, the column list has the two system columns element and score only, the
  sort state is at column none and direction ascending, the filter text is empty, and the
  selection is empty with selection mode off. The two effects also empty the filtered-field
  values.
\<close>

lemma keyName_change_resets_state:
  "(let s' = keyName_reset_effect p (selection_clear_effect s) in
      attributeCache s' = Map.empty \<and> parsedAttributeCache s' = Map.empty
    \<and> map name (availableColumns s') = [''element'', ''score'']
    \<and> map ctype (availableColumns s') = [System, System]
    \<and> filteredFieldValues s' = Map.empty
    \<and> sortColumn s' = Col_none \<and> sortDirection s' = Asc
    \<and> filterText s' = []
    \<and> selectedElements s' = {} \<and> \<not> selectMode s')
   \<and> (keyName p \<noteq> keyName (props c) \<longrightarrow>
       (let s' = st (step parse rt (Rerender p fresh) c) in
          attributeCache s' = Map.empty \<and> parsedAttributeCache s' = Map.empty
        \<and> map name (availableColumns s') = [''element'', ''score'']
        \<and> map ctype (availableColumns s') = [System, System]
        \<and> sortColumn s' = Col_none \<and> sortDirection s' = Asc
        \<and> filterText s' = []
        \<and> selectedElements s' = {} \<and> \<not> selectMode s'))"
  by (simp add: Let_def commit_key_state keyName_reset_effect_def selection_clear_effect_def)

text \<open>
  Claim C6 fails: the reset does not come before the new fetch and the other effects of the
  render that saw the new \<^verbatim>\<open>keyName\<close>, which all still read the state of the previous dataset.
  In filtered-only mode with a filter on \<^verbatim>\<open>color\<close>, the dataset changes from \<^verbatim>\<open>fruits\<close>, where
  \<^verbatim>\<open>e1\<close> has the attributes \<^verbatim>\<open>{"color":"red"}\<close>, to \<^verbatim>\<open>animals\<close>, whose results have an element \<^verbatim>\<open>e1\<close>
  too. After the effects of that render the two caches and the columns are reset and the new
  fetch is in flight; but its closure holds the raw cache of \<^verbatim>\<open>fruits\<close>, and the filtered-field
  values, which the reset had emptied, hold the display value \<^verbatim>\<open>red\<close> of \<^verbatim>\<open>fruits\<close> for \<^verbatim>\<open>e1\<close>
  again. The render that follows empties the filtered-field values; the closure keeps the
  old raw cache.
\<close>

theorem reset_overtaken_by_effects_of_same_render:
  \<open>keyName animals_filtered \<noteq> keyName (props fruits_filtered_loaded)
   \<and> attributeCache (st fruits_filtered_loaded) ''e1'' = Some (Payload ''{"color":"red"}'')
   \<and> filteredFieldValues (st fruits_filtered_loaded) ''e1'' = Some [''color'' \<mapsto> ''red'']
   \<and> attributeCache (st animals_first_flush) = Map.empty
   \<and> parsedAttributeCache (st animals_first_flush) = Map.empty
   \<and> map name (availableColumns (st animals_first_flush)) = [''element'', ''score'']
   \<and> length (fetches animals_first_flush) = 2
   \<and> \<not> isCancelled (fetches animals_first_flush ! 1)
   \<and> \<not> settled (fetches animals_first_flush ! 1)
   \<and> closure_attributeCache (fetches animals_first_flush ! 1) ''e1''
       = Some (Payload ''{"color":"red"}'')
   \<and> filteredFieldValues (st animals_first_flush) ''e1'' = Some [''color'' \<mapsto> ''red'']
   \<and> \<not> effect_failed animals_first_flush
   \<and> filteredFieldValues (st animals_settled) = Map.empty
   \<and> \<not> settled (fetches animals_settled ! 1)
   \<and> closure_attributeCache (fetches animals_settled ! 1) ''e1''
       = Some (Payload ''{"color":"red"}'')\<close>
  unfolding animals_settled_eval animals_first_flush_eval fruits_filtered_loaded_eval
  by (simp add: animals_filtered_def fruits_filtered_def initial_state_def)

text \<open>
  Claim C3 fails when filtered-only mode is left. The user has hidden the column \<^verbatim>\<open>color\<close>, and
  the persisted visibility of \<^verbatim>\<open>color\<close> is false from then on. Filtered-only mode is switched
  on with no filter expression, which keeps the column hidden, and switched off again: now
  attributes are shown, the mode is disabled and there is no filter expression, and the
  column \<^verbatim>\<open>color\<close> is visible, against its persisted visibility.
\<close>

theorem hidden_column_shown_when_mode_left:
  \<open>map (\<lambda>col. (name col, visible col)) (availableColumns (st color_toggled_off))
       = [(''element'', True), (''score'', True), (''color'', False)]
   \<and> showOnlyFilteredAttributes (props mode_entered)
   \<and> searchFilter (props mode_entered) = None
   \<and> getColumnVisibility (props mode_entered) ''color'' True = False
   \<and> map (\<lambda>col. (name col, visible col)) (availableColumns (st mode_entered))
       = [(''element'', True), (''score'', True), (''color'', False)]
   \<and> showAttributes (props mode_left)
   \<and> \<not> showOnlyFilteredAttributes (props mode_left)
   \<and> searchFilter (props mode_left) = None
   \<and> getColumnVisibility (props mode_left) ''color'' True = False
   \<and> map (\<lambda>col. (name col, visible col)) (availableColumns (st mode_left))
       = [(''element'', True), (''score'', True), (''color'', True)]
   \<and> filteredFieldValues (st mode_left) = Map.empty
   \<and> \<not> effect_failed mode_left\<close>
  unfolding mode_left_def mode_entered_eval color_toggled_off_eval
  by (simp add: commit_def effect_flush_def run_filtered_values_def Let_def
        fruits_e1_def fruits_mode_on_def fruits_mode_off_def filtered_values_effect_def
        column_visibility_effect_def no_searchFilter_def color_hidden_def
        initial_state_def filteredFields_def)

text \<open>
  Claim C1 as stated fails. Within the dataset \<^verbatim>\<open>fruits\<close>, the field \<^verbatim>\<open>color\<close> has appeared in the
  parsed attributes of \<^verbatim>\<open>e1\<close> and has its column; after the results change to \<^verbatim>\<open>e2\<close> and the next
  batched fetch brings \<^verbatim>\<open>{"size":3}\<close>, the column \<^verbatim>\<open>color\<close> is gone.
\<close>

theorem attribute_column_removed_by_later_fetch:
  \<open>keyName (props fruits_next_results) = keyName (props fruits_loaded)
   \<and> parsedAttributeCache (st fruits_loaded) ''e1'' = Some (JObj [(''color'', JStr ''red'')])
   \<and> map name (availableColumns (st fruits_loaded)) = [''element'', ''score'', ''color'']
   \<and> map name (availableColumns (st fruits_next_results)) = [''element'', ''score'', ''color'']
   \<and> map name (availableColumns (st
         (step sample_parse sample_runtime (FetchResolved 1 (Some [Some ''{"size":3}'']))
            fruits_next_results)))
       = [''element'', ''score'', ''size'']\<close>
  unfolding fruits_next_results_eval fruits_loaded_eval
  by (simp add: Let_def fetchAndProcessAttributes_def run_filtered_values_def
        process_element_def store_raw_def store_parsed_def assign_property_def attribute_at_def
        sample_parse_def set_add_def filtered_values_effect_def fruits_e1_def fruits_e2_def
        initial_state_def default_visibility_def filteredFields_def)


text \<open>
  Claim C1, amended. Within one dataset lifetime, every operation other than a completed
  batched fetch (a render that keeps \<^verbatim>\<open>keyName\<close>, a single-element attribute update, a
  visibility toggle, a sort click, a change of the filter text) keeps every column, in order,
  and at most appends columns. A batched fetch that completes without being cancelled keeps
  the system columns and replaces the attribute columns: afterwards their names are exactly
  the field names found in the parsed payloads of that batch. A fetch that was cancelled
  leaves the column list as it is.
\<close>

theorem columns_across_events:
  "((\<forall>i a. e \<noteq> FetchResolved i a) \<and> (\<forall>p fresh. e = Rerender p fresh \<longrightarrow> keyName p = keyName (props c)) \<longrightarrow>
      prefix (map name (availableColumns (st c)))
             (map name (availableColumns (st (step parse n e c)))))
   \<and> (i < length (fetches c) \<and> \<not> settled (fetches c ! i) \<and> \<not> isCancelled (fetches c ! i) \<longrightarrow>
        filter (\<lambda>col. ctype col = System)
          (availableColumns (st (step parse n (FetchResolved i (Some attrs)) c)))
          = filter (\<lambda>col. ctype col = System) (availableColumns (st c))
      \<and> name ` {col \<in> set (availableColumns (st (step parse n (FetchResolved i (Some attrs)) c))).
                  ctype col = Attribute}
          = (\<Union>k<length (closure_elements (fetches c ! i)). keys_at parse attrs k))
   \<and> (j < length (fetches c) \<and> isCancelled (fetches c ! j) \<longrightarrow>
        availableColumns (st (step parse n (FetchResolved j a) c)) = availableColumns (st c))"
proof -
  have one: "prefix (map name (availableColumns (st c)))
                    (map name (availableColumns (st (step parse n e c))))"
    if nf: "\<forall>i a. e \<noteq> FetchResolved i a"
      and nk: "\<forall>p fresh. e = Rerender p fresh \<longrightarrow> keyName p = keyName (props c)"
  proof (cases e)
    case (Rerender p fresh)
    then show ?thesis using nk by (simp add: commit_names_same_key)
  next
    case (FetchResolved i a)
    then show ?thesis using nf by simp
  next
    case (EditAttributes el)
    then show ?thesis by simp
  next
    case (AttributesDialogClosed u)
    then show ?thesis
      using prefix_map_name[OF handleAttributesDialogClose_columns[of "st c" parse u]]
      by (simp add: Let_def run_filtered_values_frame)
  next
    case (SortClicked col)
    then show ?thesis by (simp add: handleSort_columns)
  next
    case (ColumnToggled cn v)
    then show ?thesis by (simp add: handleToggleColumn_names)
  next
    case (FilterTextChanged t)
    then show ?thesis by simp
  qed
  have two: "filter (\<lambda>col. ctype col = System)
          (availableColumns (st (step parse n (FetchResolved i (Some attrs)) c)))
          = filter (\<lambda>col. ctype col = System) (availableColumns (st c))
      \<and> name ` {col \<in> set (availableColumns (st (step parse n (FetchResolved i (Some attrs)) c))).
                  ctype col = Attribute}
          = (\<Union>k<length (closure_elements (fetches c ! i)). keys_at parse attrs k)"
    if "i < length (fetches c)" "\<not> settled (fetches c ! i)" "\<not> isCancelled (fetches c ! i)"
    using that fetch_columns[OF that(3), of parse "props c" attrs "st c"]
    by (simp add: Let_def run_filtered_values_frame)
  have three: "availableColumns (st (step parse n (FetchResolved j a) c)) = availableColumns (st c)"
    if "j < length (fetches c)" "isCancelled (fetches c ! j)"
    using resolve_cancelled[OF that] by simp
  show ?thesis using one two three by blast
qed


theorem columns_across_events_witness:
  \<open>prefix (map name (availableColumns (st fruits_next_results)))
      (map name (availableColumns (st
         (step sample_parse sample_runtime (ColumnToggled ''color'' False)
            fruits_next_results))))
   \<and> 1 < length (fetches fruits_next_results)
   \<and> \<not> settled (fetches fruits_next_results ! 1)
   \<and> \<not> isCancelled (fetches fruits_next_results ! 1)
   \<and> name ` {col \<in> set (availableColumns (st
         (step sample_parse sample_runtime (FetchResolved 1 (Some [Some ''{"size":3}'']))
            fruits_next_results))). ctype col = Attribute} = {''size''}
   \<and> 0 < length (fetches fruits_next_results)
   \<and> isCancelled (fetches fruits_next_results ! 0)
   \<and> availableColumns (st
         (step sample_parse sample_runtime (FetchResolved 0 (Some [Some ''{"color":"red"}'']))
            fruits_next_results))
       = availableColumns (st fruits_next_results)\<close>
proof -
  have k: \<open>(\<Union>k<length (closure_elements (fetches fruits_next_results ! 1)).
             keys_at sample_parse [Some ''{"size":3}''] k) = {''size''}\<close>
    unfolding fruits_next_results_eval
    by (simp add: keys_at_def parsed_at_def attribute_at_def sample_parse_def lessThan_Suc)
  have h: "1 < length (fetches fruits_next_results)"
          "\<not> settled (fetches fruits_next_results ! 1)"
          "\<not> isCancelled (fetches fruits_next_results ! 1)"
          "0 < length (fetches fruits_next_results)"
          "isCancelled (fetches fruits_next_results ! 0)"
    unfolding fruits_next_results_eval by simp_all
  show ?thesis
    using columns_across_events [where e = "ColumnToggled ''color'' False" and c = fruits_next_results
                and parse = sample_parse and n = sample_runtime
                and i = 1 and attrs = \<open>[Some ''{"size":3}'']\<close>
                and j = 0 and a = \<open>Some [Some ''{"color":"red"}'']\<close>]
          k h
    by (simp del: step.simps)
qed


text \<open>
  The fetch effect of a commit in which \<^verbatim>\<open>keyName\<close> changed closes over the raw cache of its
  render, which the reset effect of the same commit has not yet emptied. When that fetch
  completes, the entries of the previous dataset for elements outside the batch are in the
  raw cache again.
\<close>

lemma key_change_closure_holds_old_cache:
  assumes "keyName p \<noteq> keyName (props c)" "showAttributes p" "results p \<noteq> []"
  shows "length (fetches (step parse n (Rerender p fresh) c)) = Suc (length (fetches c))
       \<and> fetches (step parse n (Rerender p fresh) c) ! length (fetches c)
           = \<lparr>closure_elements = map fst (results p),
              closure_attributeCache = attributeCache (st c),
              isCancelled = False, settled = False\<rparr>
       \<and> attributeCache (st (step parse n (Rerender p fresh) c)) = Map.empty"
  using assms
  by (simp add: commit_fetches_cleanup commit_key_state fetch_effect_def run_cleanup_frame
        nth_append)

lemma old_entries_return_after_key_change:
  assumes "keyName p \<noteq> keyName (props c)" "showAttributes p" "results p \<noteq> []"
      and "e \<notin> fst ` set (results p)"
  shows "attributeCache
           (st (step parse n (FetchResolved (length (fetches c)) (Some attrs))
                  (step parse n (Rerender p fresh) c))) e
         = attributeCache (st c) e"
proof -
  let ?c1 = "step parse n (Rerender p fresh) c"
  let ?cl = "\<lparr>closure_elements = map fst (results p),
              closure_attributeCache = attributeCache (st c),
              isCancelled = False, settled = False\<rparr>"
  have k: "length (fetches ?c1) = Suc (length (fetches c))" "fetches ?c1 ! length (fetches c) = ?cl"
    using key_change_closure_holds_old_cache[OF assms(1-3)] by blast+
  have "attributeCache (fetchAndProcessAttributes parse (props ?c1) ?cl (Some attrs) (st ?c1)) e
          = closure_attributeCache ?cl e"
    by (rule fetch_raw_cache(1)) (use assms(4) in simp_all)
  then show ?thesis
    using k by (simp add: Let_def run_filtered_values_frame del: step.simps(1))
qed

text \<open>
  Claim C10 at a concrete history. The dataset changes from \<^verbatim>\<open>fruits\<close>, whose raw cache holds
  an entry for \<^verbatim>\<open>e1\<close>, to \<^verbatim>\<open>animals\<close> with the single result \<^verbatim>\<open>e2\<close>. The reset empties the raw
  cache, and the fetch for \<^verbatim>\<open>e2\<close> is started in the same commit, so its closure still holds the
  raw cache of the render, with the entry for \<^verbatim>\<open>e1\<close>. When that fetch completes, the raw cache
  has the entry for \<^verbatim>\<open>e1\<close> again, although the cache was empty before and \<^verbatim>\<open>e1\<close> is not in the
  batch.
\<close>

theorem stale_raw_entries_after_dataset_change:
  \<open>attributeCache (st animals_selected) = Map.empty
   \<and> closure_elements (fetches animals_selected ! 1) = [''e2'']
   \<and> \<not> isCancelled (fetches animals_selected ! 1)
   \<and> \<not> settled (fetches animals_selected ! 1)
   \<and> attributeCache (st
         (step sample_parse sample_runtime (FetchResolved 1 (Some [Some ''{"size":3}'']))
            animals_selected)) ''e1''
       = Some (Payload ''{"color":"red"}'')
   \<and> attributeCache (st
         (step sample_parse sample_runtime (FetchResolved 1 (Some [Some ''{"size":3}'']))
            animals_selected)) ''e2''
       = Some (Payload ''{"size":3}'')\<close>
  unfolding animals_selected_eval
  by (simp add: Let_def fetchAndProcessAttributes_def run_filtered_values_def
        process_element_def store_raw_def store_parsed_def assign_property_def attribute_at_def
        sample_parse_def set_add_def filtered_values_effect_def fruits_e1_def animals_e2_def
        initial_state_def default_visibility_def filteredFields_def)



end
